theory Spec2Isabelle
  imports
    Complex_Main
    "HOL-Library.Word"
    "HOL-Library.AList"
    "HOL-Library.List_Lexorder"
    "HOL-Library.Char_ord"
    "HOL-Library.Multiset"
begin

text \<open>
  A model of the bookmark grabber: the ledger of processed items with its claim and
  release operations and its aggregates, the splitting of a digest into messages, the
  merge of the analysis with the enrichment evidence, and the loop that takes a batch
  of items through claim, analysis and commit. The clock that the weekly aggregates
  read is modelled with the date arithmetic of the platform. The definitions come
  first, each after the function of the source it stands for; the properties follow.
\<close>

section \<open>The ledger: \<^verbatim>\<open>DbService\<close> (services/db.service.ts)\<close>

text \<open>
  Modelled from the spec: the declaration of the type \<^verbatim>\<open>ProcessingStatus\<close>, which
  \<^verbatim>\<open>DbService\<close> imports from types/index.ts, is not part of that file as given. The
  lifecycle states of section 4.3 are PROCESSING, COMPLETED and FAILED, and the service
  itself only ever writes and compares the literals \<^verbatim>\<open>'processing'\<close>, \<^verbatim>\<open>'completed'\<close>
  and \<^verbatim>\<open>'failed'\<close>.
\<close>

datatype ProcessingStatus = processing | completed | failed

text \<open>
  One row of the table \<^verbatim>\<open>bookmarks\<close>. The service reads the column \<^verbatim>\<open>status\<close> at
  the type \<^verbatim>\<open>string | null\<close>; \<open>None\<close> is the null.
\<close>

record row =
  row_id :: nat
  tweet_id :: string
  processed_at :: string
  category :: string
  notion_page_id :: "string option"
  raw_data :: string
  status :: "ProcessingStatus option"

text \<open>
  The table in insertion order, and the counter behind \<^verbatim>\<open>AUTOINCREMENT\<close>. The storage
  engine itself is taken not to fail.
\<close>

record DbService =
  bookmarks :: "row list"
  autoincrement :: nat

definition empty_db :: DbService where
  "empty_db = \<lparr>bookmarks = [], autoincrement = 0\<rparr>"

text \<open>The constraint \<^verbatim>\<open>tweet_id TEXT UNIQUE NOT NULL\<close>.\<close>

definition unique_tweet_id :: "DbService \<Rightarrow> bool" where
  "unique_tweet_id db = distinct (map tweet_id (bookmarks db))"

text \<open>\<^verbatim>\<open>SELECT ... FROM bookmarks WHERE tweet_id = ?\<close>, read with \<^verbatim>\<open>.get\<close>.\<close>

definition get_row :: "DbService \<Rightarrow> string \<Rightarrow> row option" where
  "get_row db tweetId = find (\<lambda>r. tweet_id r = tweetId) (bookmarks db)"

definition select_status :: "DbService \<Rightarrow> string \<Rightarrow> ProcessingStatus option option" where
  "select_status db tweetId = map_option status (get_row db tweetId)"

text \<open>
  \<^verbatim>\<open>INSERT OR REPLACE INTO bookmarks (tweet_id, processed_at, category, notion_page_id,
  raw_data, status) VALUES (?, ?, ?, ?, ?, ?)\<close>: a row in conflict on \<^verbatim>\<open>tweet_id\<close> is
  deleted, and the new row gets the next \<^verbatim>\<open>id\<close>.
\<close>

definition insert_or_replace ::
  "DbService \<Rightarrow> string \<Rightarrow> string \<Rightarrow> string \<Rightarrow> string option \<Rightarrow> string
     \<Rightarrow> ProcessingStatus \<Rightarrow> DbService" where
  "insert_or_replace db tid ts cat page raw st =
     \<lparr>bookmarks =
        filter (\<lambda>r. tweet_id r \<noteq> tid) (bookmarks db) @
        [\<lparr>row_id = Suc (autoincrement db), tweet_id = tid, processed_at = ts,
          category = cat, notion_page_id = page, raw_data = raw, status = Some st\<rparr>],
      autoincrement = Suc (autoincrement db)\<rparr>"

definition isProcessed :: "DbService \<Rightarrow> string \<Rightarrow> bool" where
  "isProcessed db tweetId =
     (case select_status db tweetId of
        None \<Rightarrow> False
      | Some st \<Rightarrow> st = Some completed \<or> st = None)"

definition isLocked :: "DbService \<Rightarrow> string \<Rightarrow> bool" where
  "isLocked db tweetId =
     (case select_status db tweetId of
        None \<Rightarrow> False
      | Some st \<Rightarrow> st = Some processing)"

text \<open>
  \<open>tryLock db tweetId now\<close>: \<open>now\<close> is \<^verbatim>\<open>new Date().toISOString()\<close> at the call.
  The result is the returned boolean and the table afterwards.
\<close>

definition tryLock :: "DbService \<Rightarrow> string \<Rightarrow> string \<Rightarrow> bool \<times> DbService" where
  "tryLock db tweetId now =
     (case select_status db tweetId of
        Some st \<Rightarrow>
          if st = Some completed \<or> st = Some processing \<or> st = None
          then (False, db)
          else (True, insert_or_replace db tweetId now ''review'' None ''{}'' processing)
      | None \<Rightarrow> (True, insert_or_replace db tweetId now ''review'' None ''{}'' processing))"

text \<open>
  \<^verbatim>\<open>UPDATE bookmarks SET status = ? WHERE tweet_id = ?\<close>. The TypeScript default of
  the second argument is \<^verbatim>\<open>'failed'\<close>.
\<close>

definition releaseLock :: "DbService \<Rightarrow> string \<Rightarrow> ProcessingStatus \<Rightarrow> DbService" where
  "releaseLock db tweetId st =
     db\<lparr>bookmarks :=
          map (\<lambda>r. if tweet_id r = tweetId then r\<lparr>status := Some st\<rparr> else r) (bookmarks db)\<rparr>"

record BookmarkRecord =
  tweetId :: string
  processedAt :: string
  rec_category :: string
  notionPageId :: "string option"
  rawData :: string
  rec_status :: "ProcessingStatus option"

definition markProcessed :: "DbService \<Rightarrow> BookmarkRecord \<Rightarrow> DbService" where
  "markProcessed db record =
     insert_or_replace db (tweetId record) (processedAt record) (rec_category record)
       (notionPageId record) (rawData record)
       (case rec_status record of Some s \<Rightarrow> s | None \<Rightarrow> completed)"

subsection \<open>Aggregates\<close>

record Stats =
  stats_total :: nat
  stats_byCategory :: "string \<rightharpoonup> nat"

text \<open>\<^verbatim>\<open>SELECT category, COUNT(*) as count FROM bookmarks GROUP BY category\<close>.\<close>

definition group_by_category :: "row list \<Rightarrow> (string \<times> nat) list" where
  "group_by_category rs =
     map (\<lambda>c. (c, length (filter (\<lambda>r. category r = c) rs))) (remdups (map category rs))"

definition getStats :: "DbService \<Rightarrow> Stats" where
  "getStats db =
     \<lparr>stats_total = length (bookmarks db),
      stats_byCategory =
        foldl (\<lambda>acc (c, n). acc(c \<mapsto> n)) Map.empty (group_by_category (bookmarks db))\<rparr>"

text \<open>
  What \<^verbatim>\<open>getWeeklyStats\<close> reads of a payload after \<^verbatim>\<open>JSON.parse\<close>: the member
  \<^verbatim>\<open>analysis\<close> and, of it, \<^verbatim>\<open>tags\<close>, \<^verbatim>\<open>relevanceScore\<close> and \<^verbatim>\<open>summary\<close>, each
  absent or present at the type the writers of the table give it (an array of strings,
  a number, a string). \<^verbatim>\<open>JSON.parse\<close> itself is a function of the platform and a
  parameter \<open>parse\<close> of the model; \<open>None\<close> is the exception it throws on malformed text.
\<close>

record parsed_analysis =
  p_tags :: "string list option"
  p_relevanceScore :: "rat option"
  p_summary :: "string option"

record parsed_payload =
  p_analysis :: "parsed_analysis option"

type_synonym json_parse = "string \<Rightarrow> parsed_payload option"

record highlight =
  hl_tweetId :: string
  hl_summary :: string
  hl_category :: string

record WeeklyStats =
  totalProcessed :: nat
  byCategory :: "string \<rightharpoonup> nat"
  topTags :: "(string \<times> nat) list"
  highlights :: "highlight list"

text \<open>
  \<^verbatim>\<open>SELECT * FROM bookmarks WHERE processed_at >= ? ORDER BY processed_at DESC\<close>: the
  column is text and is compared as text. Rows with the same \<^verbatim>\<open>processed_at\<close> are
  returned latest insertion first; no property below depends on that choice.
\<close>

definition select_since :: "DbService \<Rightarrow> string \<Rightarrow> row list" where
  "select_since db weekAgoStr =
     rev (sort_key processed_at (filter (\<lambda>r. weekAgoStr \<le> processed_at r) (bookmarks db)))"

text \<open>
  The three accumulators of the loop. \<^verbatim>\<open>tagCounts\<close> is a \<^verbatim>\<open>Map\<close>, which keeps its
  keys in the order of their first insertion.
\<close>

record weekly_acc =
  acc_byCategory :: "string \<rightharpoonup> nat"
  acc_tagCounts :: "(string \<times> nat) list"
  acc_highlights :: "highlight list"

definition or_zero :: "nat option \<Rightarrow> nat" where
  "or_zero v = (case v of Some n \<Rightarrow> n | None \<Rightarrow> 0)"

definition count_tags :: "(string \<times> nat) list \<Rightarrow> string list \<Rightarrow> (string \<times> nat) list" where
  "count_tags tagCounts ts =
     foldl (\<lambda>tc tag. AList.update tag (or_zero (map_of tc tag) + 1) tc) tagCounts ts"

definition weekly_row :: "json_parse \<Rightarrow> weekly_acc \<Rightarrow> row \<Rightarrow> weekly_acc" where
  "weekly_row parse acc r =
     (let acc1 = acc\<lparr>acc_byCategory :=
                     (acc_byCategory acc)
                       (category r \<mapsto> or_zero (acc_byCategory acc (category r)) + 1)\<rparr>
      in case parse (raw_data r) of
           None \<Rightarrow> acc1
         | Some data \<Rightarrow>
             (let analysis = p_analysis data;
                  acc2 =
                    (case analysis of
                       None \<Rightarrow> acc1
                     | Some a \<Rightarrow>
                         (case p_tags a of
                            None \<Rightarrow> acc1
                          | Some ts \<Rightarrow>
                              acc1\<lparr>acc_tagCounts := count_tags (acc_tagCounts acc1) ts\<rparr>))
              in case analysis of
                   None \<Rightarrow> acc2
                 | Some a \<Rightarrow>
                     if (case p_relevanceScore a of None \<Rightarrow> False | Some score \<Rightarrow> 8 \<le> score)
                        \<and> length (acc_highlights acc2) < 10
                     then acc2\<lparr>acc_highlights :=
                                 acc_highlights acc2 @
                                 [\<lparr>hl_tweetId = tweet_id r,
                                   hl_summary = (case p_summary a of None \<Rightarrow> [] | Some sm \<Rightarrow> sm),
                                   hl_category = category r\<rparr>]\<rparr>
                     else acc2))"

text \<open>
  \<^verbatim>\<open>Array.from(tagCounts.entries()).sort((a, b) => b[1] - a[1]).slice(0, 10)\<close>; the
  sort of an array is stable.
\<close>

definition top_tags :: "(string \<times> nat) list \<Rightarrow> (string \<times> nat) list" where
  "top_tags tagCounts = take 10 (sort_key (\<lambda>(tag, count). - int count) tagCounts)"

text \<open>
  \<open>getWeeklyStats db parse weekAgoStr\<close> is \<^verbatim>\<open>getWeeklyStats\<close> from its query on:
  \<open>weekAgoStr\<close> is the constant of that name, the ISO string of the date that
  \<^verbatim>\<open>setDate(getDate() - 7)\<close> computes from the time of the call. The lines that compute
  it are modelled with the clock below, where \<open>getWeeklyStats_now\<close> is the whole
  function.
\<close>

definition getWeeklyStats :: "DbService \<Rightarrow> json_parse \<Rightarrow> string \<Rightarrow> WeeklyStats" where
  "getWeeklyStats db parse weekAgoStr =
     (let rows = select_since db weekAgoStr;
          acc = foldl (weekly_row parse)
                  \<lparr>acc_byCategory = Map.empty, acc_tagCounts = [], acc_highlights = []\<rparr> rows
      in \<lparr>totalProcessed = length rows,
          byCategory = acc_byCategory acc,
          topTags = top_tags (acc_tagCounts acc),
          highlights = acc_highlights acc\<rparr>)"

definition getUnprocessedCount :: "DbService \<Rightarrow> nat" where
  "getUnprocessedCount db = length (bookmarks db)"

subsection \<open>The aggregates, as the specification words them\<close>

text \<open>
  The definitions of this subsection do not come from the code. They say what a record
  contributes to the weekly aggregates in the words of the specification: the window,
  the tags of a record's parsed payload and their manual tally, the relevance score and
  the highlight made of a record. The loop of \<^verbatim>\<open>getWeeklyStats\<close> is compared with
  them. \<open>set_statuses\<close> rewrites the lifecycle state of every record.
\<close>

definition row_tags :: "json_parse \<Rightarrow> row \<Rightarrow> string list" where
  "row_tags parse r =
     (case parse (raw_data r) of
        None \<Rightarrow> []
      | Some d \<Rightarrow>
          (case p_analysis d of
             None \<Rightarrow> []
           | Some a \<Rightarrow> (case p_tags a of None \<Rightarrow> [] | Some ts \<Rightarrow> ts)))"






definition in_window :: "string \<Rightarrow> row \<Rightarrow> bool" where
  "in_window weekAgoStr r = (weekAgoStr \<le> processed_at r)"

definition set_statuses :: "(row \<Rightarrow> ProcessingStatus option) \<Rightarrow> DbService \<Rightarrow> DbService" where
  "set_statuses g db = db\<lparr>bookmarks := map (\<lambda>r. r\<lparr>status := g r\<rparr>) (bookmarks db)\<rparr>"

subsection \<open>The clock of \<^verbatim>\<open>getWeeklyStats\<close>: \<^verbatim>\<open>Date\<close>\<close>

text \<open>
  The first three lines of \<^verbatim>\<open>getWeeklyStats\<close> compute the cutoff from the clock:
  \<^verbatim>\<open>const weekAgo = new Date(); weekAgo.setDate(weekAgo.getDate() - 7);\<close>
  \<^verbatim>\<open>const weekAgoStr = weekAgo.toISOString();\<close>. A \<^verbatim>\<open>Date\<close> holds a time value, the
  number of milliseconds since 1970-01-01T00:00:00Z; \<^verbatim>\<open>new Date()\<close> reads it from the
  clock, and it is the parameter \<open>now\<close> below. \<^verbatim>\<open>getDate\<close>, \<^verbatim>\<open>setDate\<close> and
  \<^verbatim>\<open>toISOString\<close> are the functions of ECMAScript of these names, written with the
  abstract operations of its section on time values (\<^verbatim>\<open>Day\<close>, \<^verbatim>\<open>DayFromYear\<close>,
  \<^verbatim>\<open>YearFromTime\<close>, \<^verbatim>\<open>MonthFromTime\<close>, \<^verbatim>\<open>DateFromTime\<close>, \<^verbatim>\<open>MakeDay\<close>,
  \<^verbatim>\<open>MakeDate\<close>, \<^verbatim>\<open>LocalTime\<close>, \<^verbatim>\<open>UTC\<close>). \<^verbatim>\<open>getDate\<close> and \<^verbatim>\<open>setDate\<close> work
  in local time: the offset of the local time zone from UTC, \<^verbatim>\<open>LocalTZA(t, isUTC)\<close>, is
  a function of the platform and a parameter \<open>tza\<close> of the model. Time values stay
  inside the range of \<^verbatim>\<open>Date\<close> (100 million days on either side of 1970), where
  \<^verbatim>\<open>TimeClip\<close> changes nothing and \<^verbatim>\<open>toISOString\<close> does not throw.

  \<^verbatim>\<open>YearFromTime\<close> is the largest year that starts at or before the time value; it is
  searched upwards from a year that is not too large. \<^verbatim>\<open>MakeDay\<close> is the day number
  of the first of the month, found with the table \<open>month_start\<close>, plus the date
  less one.
\<close>

type_synonym LocalTZA = "int \<Rightarrow> bool \<Rightarrow> int"

definition msPerDay :: int where
  "msPerDay = 86400000"

definition Day :: "int \<Rightarrow> int" where
  "Day t = t div msPerDay"

definition TimeWithinDay :: "int \<Rightarrow> int" where
  "TimeWithinDay t = t mod msPerDay"

definition DaysInYear :: "int \<Rightarrow> int" where
  "DaysInYear y =
     (if y mod 4 \<noteq> 0 then 365
      else if y mod 100 \<noteq> 0 then 366
      else if y mod 400 \<noteq> 0 then 365
      else 366)"

definition DayFromYear :: "int \<Rightarrow> int" where
  "DayFromYear y =
     365 * (y - 1970) + (y - 1969) div 4 - (y - 1901) div 100 + (y - 1601) div 400"

function year_search :: "int \<Rightarrow> int \<Rightarrow> int" where
  "year_search y d = (if DayFromYear (y + 1) \<le> d then year_search (y + 1) d else y)"
  by pat_completeness auto
termination
proof (relation "measure (\<lambda>(y, d). nat (d + 1 - DayFromYear (y + 1)))")
  show "wf (measure (\<lambda>(y, d). nat (d + 1 - DayFromYear (y + 1))))"
    by simp
next
  fix y d :: int
  assume le: "DayFromYear (y + 1) \<le> d"
  have a: "(y + 1 - 1969) div 4 \<le> (y + 1 + 1 - 1969) div 4"
    by (rule zdiv_mono1) simp_all
  have "(y + 1 + 1 - 1901) div 100 \<le> (y + 1 - 1901 + 100) div 100"
    by (rule zdiv_mono1) simp_all
  then have b: "(y + 1 + 1 - 1901) div 100 \<le> (y + 1 - 1901) div 100 + 1"
    by simp
  have c: "(y + 1 - 1601) div 400 \<le> (y + 1 + 1 - 1601) div 400"
    by (rule zdiv_mono1) simp_all
  have "365 * (y + 1 - 1970) + p - q + r < 365 * (y + 1 + 1 - 1970) + p' - q' + r'"
    if "p \<le> p'" "q' \<le> q + 1" "r \<le> r'" for p p' q q' r r' :: int
    using that by simp
  from this [OF a b c] have "DayFromYear (y + 1) < DayFromYear (y + 1 + 1)"
    unfolding DayFromYear_def .
  with le show "((y + 1, d), (y, d)) \<in> measure (\<lambda>(y, d). nat (d + 1 - DayFromYear (y + 1)))"
    by simp
qed

declare year_search.simps [simp del]

definition YearFromTime :: "int \<Rightarrow> int" where
  "YearFromTime t =
     (let d = Day t
      in year_search (1970 + (if 0 \<le> d then d div 366 else d div 365)) d)"

definition DayWithinYear :: "int \<Rightarrow> int" where
  "DayWithinYear t = Day t - DayFromYear (YearFromTime t)"

definition InLeapYear :: "int \<Rightarrow> int" where
  "InLeapYear t = (if DaysInYear (YearFromTime t) = 366 then 1 else 0)"

definition month_of_day :: "int \<Rightarrow> int \<Rightarrow> int" where
  "month_of_day l d =
     (if d < 31 then 0
      else if d < 59 + l then 1
      else if d < 90 + l then 2
      else if d < 120 + l then 3
      else if d < 151 + l then 4
      else if d < 181 + l then 5
      else if d < 212 + l then 6
      else if d < 243 + l then 7
      else if d < 273 + l then 8
      else if d < 304 + l then 9
      else if d < 334 + l then 10
      else 11)"

definition MonthFromTime :: "int \<Rightarrow> int" where
  "MonthFromTime t = month_of_day (InLeapYear t) (DayWithinYear t)"

definition date_of_day :: "int \<Rightarrow> int \<Rightarrow> int" where
  "date_of_day l d =
     (let m = month_of_day l d
      in if m = 0 then d + 1
         else if m = 1 then d - 30
         else if m = 2 then d - 58 - l
         else if m = 3 then d - 89 - l
         else if m = 4 then d - 119 - l
         else if m = 5 then d - 150 - l
         else if m = 6 then d - 180 - l
         else if m = 7 then d - 211 - l
         else if m = 8 then d - 242 - l
         else if m = 9 then d - 272 - l
         else if m = 10 then d - 303 - l
         else d - 333 - l)"

definition DateFromTime :: "int \<Rightarrow> int" where
  "DateFromTime t = date_of_day (InLeapYear t) (DayWithinYear t)"

definition HourFromTime :: "int \<Rightarrow> int" where
  "HourFromTime t = (t div 3600000) mod 24"

definition MinFromTime :: "int \<Rightarrow> int" where
  "MinFromTime t = (t div 60000) mod 60"

definition SecFromTime :: "int \<Rightarrow> int" where
  "SecFromTime t = (t div 1000) mod 60"

definition msFromTime :: "int \<Rightarrow> int" where
  "msFromTime t = t mod 1000"

definition month_start :: "int \<Rightarrow> int \<Rightarrow> int" where
  "month_start l m =
     (if m = 0 then 0
      else if m = 1 then 31
      else [59, 90, 120, 151, 181, 212, 243, 273, 304, 334] ! nat (m - 2) + l)"

definition MakeDay :: "int \<Rightarrow> int \<Rightarrow> int \<Rightarrow> int" where
  "MakeDay year month date =
     (let ym = year + month div 12; mn = month mod 12
      in DayFromYear ym + month_start (if DaysInYear ym = 366 then 1 else 0) mn + date - 1)"

definition MakeDate :: "int \<Rightarrow> int \<Rightarrow> int" where
  "MakeDate day time = day * msPerDay + time"

definition LocalTime :: "LocalTZA \<Rightarrow> int \<Rightarrow> int" where
  "LocalTime tza t = t + tza t True"

definition UTC :: "LocalTZA \<Rightarrow> int \<Rightarrow> int" where
  "UTC tza t = t - tza t False"

definition getDate :: "LocalTZA \<Rightarrow> int \<Rightarrow> int" where
  "getDate tza tv = DateFromTime (LocalTime tza tv)"

definition setDate :: "LocalTZA \<Rightarrow> int \<Rightarrow> int \<Rightarrow> int" where
  "setDate tza tv date =
     (let t = LocalTime tza tv;
          newDate = MakeDate (MakeDay (YearFromTime t) (MonthFromTime t) date) (TimeWithinDay t)
      in UTC tza newDate)"

text \<open>
  \<^verbatim>\<open>toISOString\<close>: \<^verbatim>\<open>YYYY-MM-DDTHH:mm:ss.sssZ\<close> in UTC, with the year in four digits
  from 0 to 9999 and as a sign and six digits otherwise.
\<close>

definition digit_char :: "int \<Rightarrow> char" where
  "digit_char n = char_of (48 + nat n)"

fun pad :: "nat \<Rightarrow> int \<Rightarrow> string" where
  "pad 0 n = []"
| "pad (Suc k) n = pad k (n div 10) @ [digit_char (n mod 10)]"

definition toISOString :: "int \<Rightarrow> string" where
  "toISOString tv =
     (let y = YearFromTime tv
      in (if 0 \<le> y \<and> y \<le> 9999 then pad 4 y
          else (if 0 \<le> y then ''+'' else ''-'') @ pad 6 \<bar>y\<bar>) @
         ''-'' @ pad 2 (MonthFromTime tv + 1) @ ''-'' @ pad 2 (DateFromTime tv) @
         ''T'' @ pad 2 (HourFromTime tv) @ '':'' @ pad 2 (MinFromTime tv) @
         '':'' @ pad 2 (SecFromTime tv) @ ''.'' @ pad 3 (msFromTime tv) @ ''Z'')"

text \<open>
  The cutoff, and \<^verbatim>\<open>getWeeklyStats\<close> as a whole: the cutoff of the clock is handed to
  the query and the loop, which are \<open>getWeeklyStats\<close> above.
\<close>

definition weekAgo :: "LocalTZA \<Rightarrow> int \<Rightarrow> int" where
  "weekAgo tza now = setDate tza now (getDate tza now - 7)"

definition weekAgoStr :: "LocalTZA \<Rightarrow> int \<Rightarrow> string" where
  "weekAgoStr tza now = toISOString (weekAgo tza now)"




section \<open>Errors\<close>

text \<open>
  The class \<^verbatim>\<open>GrabberError\<close> of types/index.ts with its message, code and retryable
  flag; \<open>OtherError\<close> is any other thrown value, with its message.
\<close>

datatype error_code = AUTH_EXPIRED | RATE_LIMIT | NETWORK | PARSE | NOTION | TELEGRAM | UNKNOWN

datatype exn =
    GrabberError string error_code bool
  | OtherError string

section \<open>The notifier: \<^verbatim>\<open>TelegramService\<close> (services/telegram.service.ts)\<close>











section \<open>The analysis: \<^verbatim>\<open>AgentService\<close> (services/agent.service.ts)\<close>

record Tweet =
  tw_id :: string
  tw_text :: string
  authorUsername :: string
  authorName :: string
  createdAt :: string
  urls :: "string list"
  images :: "string list"
  isThread :: bool
  threadTweets :: "(string \<times> string) list"

datatype priority = high | medium | low

datatype content_type =
  tweet | thread | article_share | video_share | image_post | tool_announcement | discussion

datatype estimated_value = value_high | value_medium | value_low | skip

record article_request =
  article_url :: string
  article_reason :: string
  article_priority :: priority

record transcript_request =
  youtube_url :: string
  youtube_reason :: string

record image_request =
  image_url :: string
  expectedContent :: string

record TriageResult =
  needsArticleScrape :: "article_request list"
  needsYoutubeTranscript :: "transcript_request list"
  needsImageAnalysis :: "image_request list"
  needsThreadExpansion :: bool
  contentType :: content_type
  estimatedValue :: estimated_value
  skipReason :: "string option"

record context_article =
  ca_url :: string
  ca_content :: string
  ca_title :: "string option"

record context_transcript =
  ct_url :: string
  ct_transcript :: string

record context_image =
  ci_url :: string
  ci_description :: string

record context_tweet =
  cx_id :: string
  cx_text :: string

record EnrichedContext =
  articles :: "context_article list"
  transcripts :: "context_transcript list"
  imageDescriptions :: "context_image list"
  ctx_threadTweets :: "context_tweet list"

datatype link_type = link_article | link_tool | link_repo | link_video | link_docs | link_other

datatype action_priority = action_now | action_this_week | action_someday

text \<open>
  \<open>AnalysisObject\<close> is what \<^verbatim>\<open>generateObject\<close> returns for \<^verbatim>\<open>AnalysisSchema\<close>;
  \<open>AnalysisResult\<close> extends it by the three fields that \<^verbatim>\<open>analyze\<close> adds.
\<close>

record AnalysisObject =
  analysis_category :: string
  topic :: string
  summary :: string
  tldr :: string
  forYou :: string
  topAction :: "string option"
  primaryLink :: "string option"
  hasArticle :: bool
  hasVideo :: bool
  hasThread :: bool
  keyInsights :: "string list"
  quotes :: "string list"
  extractedLinks :: "(string \<times> string \<times> link_type \<times> string) list"
  tags :: "string list"
  relevanceScore :: rat
  actionItems :: "(string \<times> action_priority \<times> string option) list"
  connections :: "string list option"

record AnalysisResult = AnalysisObject +
  youtubeTranscript :: "string option"
  articleContent :: "string option"
  imageAnalysis :: "string list"

record ScrapedArticle =
  scraped_url :: string
  scraped_title :: string
  scraped_content :: string

text \<open>
  The three shapes of payload that \<^verbatim>\<open>processTweet\<close> hands to \<^verbatim>\<open>JSON.stringify\<close>.
\<close>

record written_payload =
  pl_tweet :: Tweet
  pl_triage :: TriageResult
  pl_analysis :: "AnalysisResult option"
  pl_skipped :: bool
  pl_alreadyInNotion :: bool

text \<open>
  The world outside the process, as it answers during the handling of one item. The
  calls of \<^verbatim>\<open>generateObject\<close> either return an object or throw an error of the
  library, which is not a \<^verbatim>\<open>GrabberError\<close>: \<open>Inl\<close> carries its message.
  \<^verbatim>\<open>ScraperService.scrapeMultiple\<close>, \<^verbatim>\<open>YoutubeService.getTranscript\<close>,
  \<^verbatim>\<open>AgentService.analyzeImage\<close>, \<^verbatim>\<open>BirdService.getThread\<close> and
  \<^verbatim>\<open>BirdService.checkAuth\<close> catch every exception of their own and do not throw.
  \<^verbatim>\<open>NotionService.pageExists\<close> and \<^verbatim>\<open>createPage\<close> may throw, and so may the two
  notifications. \<open>lock_time\<close> and \<open>commit_time\<close> are the values of
  \<^verbatim>\<open>new Date().toISOString()\<close> at the claim and at the commit.
\<close>

record env =
  generate_triage :: "Tweet \<Rightarrow> string + TriageResult"
  generate_analysis :: "Tweet \<Rightarrow> TriageResult \<Rightarrow> EnrichedContext \<Rightarrow> string + AnalysisObject"
  isScrapableUrl :: "string \<Rightarrow> bool"
  scrapeMultiple :: "string list \<Rightarrow> ScrapedArticle list"
  getTranscript :: "string \<Rightarrow> string option"
  analyzeImage :: "string \<Rightarrow> string"
  getThread :: "string \<Rightarrow> Tweet list"
  pageExists :: "string \<Rightarrow> exn + bool"
  createPage :: "Tweet \<Rightarrow> AnalysisResult \<Rightarrow> exn + string"
  checkAuth :: bool
  notifyError :: "string \<times> error_code \<times> bool \<Rightarrow> exn option"
  notifyAuthExpired :: "exn option"
  stringify :: "written_payload \<Rightarrow> string"
  lock_time :: string
  commit_time :: string

definition triage :: "env \<Rightarrow> Tweet \<Rightarrow> exn + TriageResult" where
  "triage e tw =
     (case generate_triage e tw of
        Inl msg \<Rightarrow> Inl (OtherError msg)
      | Inr object \<Rightarrow> Inr object)"

definition analyze :: "env \<Rightarrow> Tweet \<Rightarrow> TriageResult \<Rightarrow> EnrichedContext \<Rightarrow> exn + AnalysisResult" where
  "analyze e tw tr context =
     (case generate_analysis e tw tr context of
        Inl msg \<Rightarrow> Inl (OtherError msg)
      | Inr object \<Rightarrow>
          Inr (AnalysisObject.extend
                 (object\<lparr>hasThread := hasThread object \<or> length (ctx_threadTweets context) > 0,
                         hasVideo := hasVideo object \<or> length (transcripts context) > 0,
                         hasArticle := hasArticle object \<or> length (articles context) > 0\<rparr>)
                 (AnalysisResult.fields
                    (case transcripts context of [] \<Rightarrow> None | t # _ \<Rightarrow> Some (ct_transcript t))
                    (case articles context of [] \<Rightarrow> None | a # _ \<Rightarrow> Some (ca_content a))
                    (map ci_description (imageDescriptions context)))))"

definition agent_processTweet ::
  "env \<Rightarrow> Tweet \<Rightarrow> (TriageResult \<Rightarrow> exn + EnrichedContext)
     \<Rightarrow> exn + TriageResult \<times> AnalysisResult option" where
  "agent_processTweet e tw enrichmentFetcher =
     (case triage e tw of
        Inl err \<Rightarrow> Inl err
      | Inr tr \<Rightarrow>
          if estimatedValue tr = skip then Inr (tr, None)
          else (case enrichmentFetcher tr of
                  Inl err \<Rightarrow> Inl err
                | Inr context \<Rightarrow>
                    (case analyze e tw tr context of
                       Inl err \<Rightarrow> Inl err
                     | Inr analysis \<Rightarrow> Inr (tr, Some analysis))))"

section \<open>The orchestrator: \<^verbatim>\<open>Grabber\<close> (index.ts)\<close>

definition fetchEnrichment :: "env \<Rightarrow> Tweet \<Rightarrow> TriageResult \<Rightarrow> EnrichedContext" where
  "fetchEnrichment e tw tr =
     (let context0 = \<lparr>articles = [], transcripts = [], imageDescriptions = [],
                       ctx_threadTweets = []\<rparr>;
          context1 =
            (if length (needsArticleScrape tr) > 0
             then (let scrape_urls =
                         map article_url
                           (filter (\<lambda>a. isScrapableUrl e (article_url a)) (needsArticleScrape tr))
                   in if length scrape_urls > 0
                      then context0\<lparr>articles :=
                             map (\<lambda>a. \<lparr>ca_url = scraped_url a, ca_content = scraped_content a,
                                        ca_title = Some (scraped_title a)\<rparr>)
                               (scrapeMultiple e scrape_urls)\<rparr>
                      else context0)
             else context0);
          context2 =
            (if length (needsYoutubeTranscript tr) > 0
             then context1\<lparr>transcripts :=
                    List.map_filter
                      (\<lambda>yt. case getTranscript e (youtube_url yt) of
                               None \<Rightarrow> None
                             | Some transcript \<Rightarrow>
                                 if transcript \<noteq> []
                                 then Some \<lparr>ct_url = youtube_url yt, ct_transcript = transcript\<rparr>
                                 else None)
                      (needsYoutubeTranscript tr)\<rparr>
             else context1);
          context3 =
            (if length (needsImageAnalysis tr) > 0
             then context2\<lparr>imageDescriptions :=
                    List.map_filter
                      (\<lambda>img. let description = analyzeImage e (image_url img)
                              in if description \<noteq> []
                                 then Some \<lparr>ci_url = image_url img, ci_description = description\<rparr>
                                 else None)
                      (needsImageAnalysis tr)\<rparr>
             else context2)
      in if needsThreadExpansion tr \<or> isThread tw
         then context3\<lparr>ctx_threadTweets :=
                map (\<lambda>t. \<lparr>cx_id = tw_id t, cx_text = tw_text t\<rparr>)
                  (filter (\<lambda>t. tw_id t \<noteq> tw_id tw) (getThread e (tw_id tw)))\<rparr>
         else context3)"

text \<open>
  \<^verbatim>\<open>Grabber.processTweet\<close>: the result is the exception thrown, or the table after
  the commit. The table is written at the very end only, so an exception leaves it as
  it was.
\<close>

definition processTweet :: "env \<Rightarrow> DbService \<Rightarrow> Tweet \<Rightarrow> exn + DbService" where
  "processTweet e db tw =
     (case agent_processTweet e tw (\<lambda>tr. Inr (fetchEnrichment e tw tr)) of
        Inl err \<Rightarrow> Inl err
      | Inr (tr, None) \<Rightarrow>
          Inr (markProcessed db
                 \<lparr>tweetId = tw_id tw, processedAt = commit_time e, rec_category = ''review'',
                  notionPageId = None,
                  rawData = stringify e \<lparr>pl_tweet = tw, pl_triage = tr, pl_analysis = None,
                                         pl_skipped = True, pl_alreadyInNotion = False\<rparr>,
                  rec_status = Some completed\<rparr>)
      | Inr (tr, Some analysis) \<Rightarrow>
          (let commit = (\<lambda>page.
                 Inr (markProcessed db
                        \<lparr>tweetId = tw_id tw, processedAt = commit_time e,
                         rec_category = analysis_category analysis, notionPageId = page,
                         rawData = stringify e
                           \<lparr>pl_tweet = tw, pl_triage = tr, pl_analysis = Some analysis,
                            pl_skipped = False, pl_alreadyInNotion = False\<rparr>,
                         rec_status = Some completed\<rparr>))
           in case pageExists e (tw_id tw) of
                Inl err \<Rightarrow> commit None
              | Inr True \<Rightarrow>
                  Inr (markProcessed db
                         \<lparr>tweetId = tw_id tw, processedAt = commit_time e,
                          rec_category = analysis_category analysis, notionPageId = None,
                          rawData = stringify e
                            \<lparr>pl_tweet = tw, pl_triage = tr, pl_analysis = Some analysis,
                             pl_skipped = False, pl_alreadyInNotion = True\<rparr>,
                          rec_status = Some completed\<rparr>)
              | Inr False \<Rightarrow>
                  (case createPage e tw analysis of
                     Inl err \<Rightarrow> commit None
                   | Inr page \<Rightarrow> commit (Some page))))"

text \<open>
  What the process reports: the lines of \<^verbatim>\<open>console.error\<close> in \<^verbatim>\<open>handleError\<close>
  and the notifications it attempts.
\<close>

datatype event =
    Console_error string error_code bool "string option"
  | Telegram_error string error_code bool
  | Telegram_auth_expired
  | Console_telegram_failed exn

record Grabber =
  db :: DbService
  isFirstRun :: bool
  isProcessing :: bool
  authValid :: bool
  firstRunLimit :: nat
  events :: "event list"

fun toGrabberError :: "exn \<Rightarrow> string \<times> error_code \<times> bool" where
  "toGrabberError (GrabberError msg c r) = (msg, c, r)"
| "toGrabberError (OtherError msg) = (msg, UNKNOWN, False)"

text \<open>
  \<^verbatim>\<open>handleError\<close> gives the state afterwards and the exception that escapes it, if
  any: only the notification of expired credentials is sent outside a \<^verbatim>\<open>try\<close>.
\<close>

definition handleError :: "env \<Rightarrow> Grabber \<Rightarrow> exn \<Rightarrow> string option \<Rightarrow> Grabber \<times> exn option" where
  "handleError e g err tid =
     (let (msg, c, r) = toGrabberError err;
          g1 = g\<lparr>events := events g @ [Console_error msg c r tid]\<rparr>
      in if c = AUTH_EXPIRED
         then (if \<not> checkAuth e
               then (g1\<lparr>authValid := False, events := events g1 @ [Telegram_auth_expired]\<rparr>,
                     notifyAuthExpired e)
               else (g1, None))
         else (case notifyError e (msg, c, r) of
                 None \<Rightarrow> (g1\<lparr>events := events g1 @ [Telegram_error msg c r]\<rparr>, None)
               | Some telegramError \<Rightarrow>
                   (g1\<lparr>events := events g1 @
                          [Telegram_error msg c r, Console_telegram_failed telegramError]\<rparr>,
                    None)))"

text \<open>
  One pass of the loop of \<^verbatim>\<open>processBookmarks\<close> over an item, and the loop; \<open>envs i\<close>
  is the world during the \<open>i\<close>-th item. The pause of 500 ms after each item is a
  matter of time only.
\<close>

record pass_state =
  grabber :: Grabber
  processed :: nat
  skipped :: nat

definition processItem :: "env \<Rightarrow> pass_state \<Rightarrow> Tweet \<Rightarrow> pass_state \<times> exn option" where
  "processItem e st tw =
     (let g = grabber st
      in if isProcessed (db g) (tw_id tw) then (st\<lparr>skipped := skipped st + 1\<rparr>, None)
         else (case tryLock (db g) (tw_id tw) (lock_time e) of
                 (False, _) \<Rightarrow> (st\<lparr>skipped := skipped st + 1\<rparr>, None)
               | (True, db1) \<Rightarrow>
                   (case processTweet e db1 tw of
                      Inr db2 \<Rightarrow>
                        (st\<lparr>grabber := g\<lparr>db := db2\<rparr>, processed := processed st + 1\<rparr>, None)
                    | Inl err \<Rightarrow>
                        (let (g', thrown) =
                               handleError e (g\<lparr>db := releaseLock db1 (tw_id tw) failed\<rparr>) err
                                 (Some (tw_id tw))
                         in (st\<lparr>grabber := g'\<rparr>, thrown)))))"





definition claimable :: "DbService \<Rightarrow> string \<Rightarrow> bool" where
  "claimable d tid = (select_status d tid = None \<or> select_status d tid = Some (Some failed))"

section \<open>Sample data\<close>

text \<open>
  Tables, payloads, items and worlds on which the properties below are evaluated:
  a table with one record in each lifecycle state, a table for the weekly aggregates
  with the payloads its rows parse to, and a batch of five items whose third triage
  call throws.
\<close>

definition sample_db :: DbService where
  "sample_db =
     \<lparr>bookmarks =
        [\<lparr>row_id = 1, tweet_id = ''legacy'', processed_at = ''2024-01-01T10:00:00.000Z'',
          category = ''tool'', notion_page_id = Some ''page-1'', raw_data = ''{}'',
          status = None\<rparr>,
         \<lparr>row_id = 2, tweet_id = ''done'', processed_at = ''2024-01-02T10:00:00.000Z'',
          category = ''article'', notion_page_id = None, raw_data = ''{}'',
          status = Some completed\<rparr>,
         \<lparr>row_id = 3, tweet_id = ''crashed'', processed_at = ''2024-01-03T10:00:00.000Z'',
          category = ''review'', notion_page_id = None, raw_data = ''{}'',
          status = Some processing\<rparr>,
         \<lparr>row_id = 4, tweet_id = ''retry'', processed_at = ''2024-01-04T10:00:00.000Z'',
          category = ''tool'', notion_page_id = Some ''page-4'', raw_data = ''not valid json'',
          status = Some failed\<rparr>],
      autoincrement = 4\<rparr>"


definition sample_parse :: json_parse where
  "sample_parse text =
     (if text = ''payload 1'' then
        Some \<lparr>p_analysis = Some \<lparr>p_tags = Some [''ai'', ''dev''], p_relevanceScore = Some 9,
                                  p_summary = Some ''Great AI tool''\<rparr>\<rparr>
      else if text = ''payload 2'' then
        Some \<lparr>p_analysis = Some \<lparr>p_tags = Some [''ai'', ''ml''], p_relevanceScore = Some 7,
                                  p_summary = Some ''ML library''\<rparr>\<rparr>
      else if text = ''payload 3'' then
        Some \<lparr>p_analysis = Some \<lparr>p_tags = Some [''typescript''], p_relevanceScore = Some 6,
                                  p_summary = Some ''TS tips''\<rparr>\<rparr>
      else if text = ''{}'' then Some \<lparr>p_analysis = None\<rparr>
      else None)"


definition sample_tweet :: "string \<Rightarrow> Tweet" where
  "sample_tweet tid =
     \<lparr>tw_id = tid, tw_text = ''Amazing new tool'', authorUsername = ''developer'',
      authorName = ''Dev User'', createdAt = ''2024-01-15T10:00:00Z'', urls = [], images = [],
      isThread = False, threadTweets = []\<rparr>"

definition sample_triage :: TriageResult where
  "sample_triage =
     \<lparr>needsArticleScrape =
        [\<lparr>article_url = ''https://example.com/post'', article_reason = ''blog post'',
          article_priority = high\<rparr>],
      needsYoutubeTranscript = [], needsImageAnalysis = [], needsThreadExpansion = False,
      contentType = article_share, estimatedValue = value_medium, skipReason = None\<rparr>"

definition sample_object :: AnalysisObject where
  "sample_object =
     \<lparr>analysis_category = ''tool'', topic = ''New tool'', summary = ''A tool'',
      tldr = ''tool'', forYou = ''useful'', topAction = None, primaryLink = None,
      hasArticle = False, hasVideo = False, hasThread = False, keyInsights = [], quotes = [],
      extractedLinks = [], tags = [''ai''], relevanceScore = 9, actionItems = [],
      connections = None\<rparr>"

definition sample_env :: env where
  "sample_env =
     \<lparr>generate_triage = (\<lambda>tw. Inr sample_triage),
      generate_analysis = (\<lambda>tw tr context. Inr sample_object),
      isScrapableUrl = (\<lambda>url. True),
      scrapeMultiple =
        map (\<lambda>url. \<lparr>scraped_url = url, scraped_title = ''Post'', scraped_content = ''Body''\<rparr>),
      getTranscript = (\<lambda>url. None),
      analyzeImage = (\<lambda>url. []),
      getThread = (\<lambda>tid. []),
      pageExists = (\<lambda>tid. Inr False),
      createPage = (\<lambda>tw analysis. Inr ''page-1''),
      checkAuth = True,
      notifyError = (\<lambda>err. None),
      notifyAuthExpired = None,
      stringify = (\<lambda>payload. ''{}''),
      lock_time = ''2024-01-15T10:00:01.000Z'',
      commit_time = ''2024-01-15T10:00:02.000Z''\<rparr>"


definition notion_down_env :: env where
  "notion_down_env =
     sample_env\<lparr>createPage :=
       (\<lambda>tw analysis. Inl (GrabberError ''Failed to create Notion page: timeout'' NOTION True))\<rparr>"

definition sample_context :: EnrichedContext where
  "sample_context =
     \<lparr>articles = [\<lparr>ca_url = ''https://example.com/post'', ca_content = ''Body'',
                   ca_title = Some ''Post''\<rparr>],
      transcripts = [], imageDescriptions = [], ctx_threadTweets = []\<rparr>"

definition sample_result :: AnalysisResult where
  "sample_result =
     AnalysisObject.extend (sample_object\<lparr>hasArticle := True\<rparr>)
       (AnalysisResult.fields None (Some ''Body'') [])"



definition start_state :: pass_state where
  "start_state =
     \<lparr>grabber = \<lparr>db = empty_db, isFirstRun = True, isProcessing = True, authValid = True,
                  firstRunLimit = 200, events = []\<rparr>,
      processed = 0, skipped = 0\<rparr>"












section \<open>Properties of the ledger\<close>

lemma find_tweet_id_None:
  "find (\<lambda>r. tweet_id r = t) rs = None \<longleftrightarrow> t \<notin> tweet_id ` set rs"
  by (induction rs) auto

lemma find_tweet_id_Some:
  "distinct (map tweet_id rs) \<Longrightarrow>
   find (\<lambda>r. tweet_id r = t) rs = Some r \<longleftrightarrow> r \<in> set rs \<and> tweet_id r = t"
  by (induction rs) (auto simp: image_iff)

lemma get_row_None: "get_row d t = None \<longleftrightarrow> t \<notin> tweet_id ` set (bookmarks d)"
  by (simp add: get_row_def find_tweet_id_None)

lemma get_row_Some:
  "unique_tweet_id d \<Longrightarrow> get_row d t = Some r \<longleftrightarrow> r \<in> set (bookmarks d) \<and> tweet_id r = t"
  by (simp add: get_row_def unique_tweet_id_def find_tweet_id_Some)

lemma unique_empty_db: "unique_tweet_id empty_db"
  by (simp add: unique_tweet_id_def empty_db_def)

lemma unique_insert_or_replace:
  "unique_tweet_id d \<Longrightarrow> unique_tweet_id (insert_or_replace d t ts cat page raw st)"
  by (auto simp: unique_tweet_id_def insert_or_replace_def distinct_map_filter)

lemma map_tweet_id_set_status:
  "map tweet_id (map (\<lambda>r. if tweet_id r = t then r\<lparr>status := Some st\<rparr> else r) rs)
     = map tweet_id rs"
  by (induction rs) auto

lemma bookmarks_releaseLock:
  "bookmarks (releaseLock d t st) =
     map (\<lambda>r. if tweet_id r = t then r\<lparr>status := Some st\<rparr> else r) (bookmarks d)"
  by (simp add: releaseLock_def)

lemma unique_releaseLock: "unique_tweet_id d \<Longrightarrow> unique_tweet_id (releaseLock d t st)"
  unfolding unique_tweet_id_def
  by (simp only: bookmarks_releaseLock map_tweet_id_set_status)

lemma unique_tryLock: "unique_tweet_id d \<Longrightarrow> unique_tweet_id (snd (tryLock d t now))"
  by (simp add: tryLock_def unique_insert_or_replace split: option.splits)

lemma unique_markProcessed: "unique_tweet_id d \<Longrightarrow> unique_tweet_id (markProcessed d record)"
  by (simp add: markProcessed_def unique_insert_or_replace)

lemma find_filter_other:
  "find (\<lambda>r. tweet_id r = t') (filter (\<lambda>r. tweet_id r \<noteq> t) rs @ [x]) =
     (if t' = t then (if tweet_id x = t then Some x else None)
      else (case find (\<lambda>r. tweet_id r = t') rs of
              Some r \<Rightarrow> Some r
            | None \<Rightarrow> if tweet_id x = t' then Some x else None))"
  by (induction rs) auto

lemma get_row_insert_or_replace:
  "get_row (insert_or_replace d t ts cat page raw st) t' =
     (if t' = t
      then Some \<lparr>row_id = Suc (autoincrement d), tweet_id = t, processed_at = ts,
                 category = cat, notion_page_id = page, raw_data = raw, status = Some st\<rparr>
      else get_row d t')"
  by (simp add: get_row_def insert_or_replace_def find_filter_other split: option.splits)

lemma find_set_status:
  "find (\<lambda>r. tweet_id r = t')
      (map (\<lambda>r. if tweet_id r = t then r\<lparr>status := Some st\<rparr> else r) rs)
    = (if t' = t then map_option (\<lambda>r. r\<lparr>status := Some st\<rparr>) (find (\<lambda>r. tweet_id r = t) rs)
       else find (\<lambda>r. tweet_id r = t') rs)"
  by (induction rs) auto

lemma get_row_releaseLock:
  "get_row (releaseLock d t st) t' =
     (if t' = t then map_option (\<lambda>r. r\<lparr>status := Some st\<rparr>) (get_row d t) else get_row d t')"
  unfolding get_row_def
  by (simp only: bookmarks_releaseLock find_set_status)

lemma select_status_insert_or_replace:
  "select_status (insert_or_replace d t ts cat page raw st) t' =
     (if t' = t then Some (Some st) else select_status d t')"
  by (simp add: select_status_def get_row_insert_or_replace)

lemma select_status_releaseLock:
  "select_status (releaseLock d t st) t' =
     (if t' = t then map_option (\<lambda>_. Some st) (select_status d t) else select_status d t')"
  by (simp add: select_status_def get_row_releaseLock option.map_comp comp_def)

lemma select_status_empty_db: "select_status empty_db t = None"
  by (simp add: select_status_def get_row_def empty_db_def)

lemma select_status_Some:
  "unique_tweet_id d \<Longrightarrow>
   select_status d t = Some s \<longleftrightarrow> (\<exists>r\<in>set (bookmarks d). tweet_id r = t \<and> status r = s)"
  by (auto simp: select_status_def get_row_Some)

lemma select_status_None: "select_status d t = None \<longleftrightarrow> t \<notin> tweet_id ` set (bookmarks d)"
  by (simp add: select_status_def get_row_None)

lemma unique_row:
  "unique_tweet_id d \<Longrightarrow> r \<in> set (bookmarks d) \<Longrightarrow> r' \<in> set (bookmarks d) \<Longrightarrow>
   tweet_id r = tweet_id r' \<Longrightarrow> r = r'"
  by (metis get_row_Some option.inject)

lemma tryLock_result:
  "tryLock d t now =
     (if select_status d t = None \<or> select_status d t = Some (Some failed)
      then (True, insert_or_replace d t now ''review'' None ''{}'' processing)
      else (False, d))"
proof (cases "select_status d t")
  case None
  then show ?thesis by (simp add: tryLock_def)
next
  case (Some st)
  show ?thesis
  proof (cases st)
    case None
    with Some show ?thesis by (simp add: tryLock_def)
  next
    case (Some v)
    with \<open>select_status d t = Some st\<close> show ?thesis
      by (cases v) (simp_all add: tryLock_def)
  qed
qed

lemma isProcessed_result:
  "isProcessed d t \<longleftrightarrow>
     select_status d t = Some (Some completed) \<or> select_status d t = Some None"
  by (auto simp: isProcessed_def split: option.splits)

lemma unique_sample_db: "unique_tweet_id sample_db"
  by (simp add: unique_tweet_id_def sample_db_def)

subsection \<open>Claims about \<^verbatim>\<open>tryLock\<close>, \<^verbatim>\<open>releaseLock\<close> and \<^verbatim>\<open>isProcessed\<close>\<close>

text \<open>
  C1, as the code has it. The claim reads: an identifier whose record is in state
  \<^verbatim>\<open>'processing'\<close> can be claimed again by \<^verbatim>\<open>tryLock\<close>. The code refuses it:
  \<^verbatim>\<open>tryLock\<close> names \<^verbatim>\<open>'processing'\<close> among the states for which it returns false.
  On the empty table, a first claim of \<^verbatim>\<open>T1\<close> leaves the record in state
  \<^verbatim>\<open>'processing'\<close>, and a second claim returns false.
\<close>

theorem tryLock_processing_counterexample:
  "select_status (snd (tryLock empty_db ''T1'' ''2024-01-01T10:00:00.000Z'')) ''T1''
     = Some (Some processing) \<and>
   \<not> fst (tryLock (snd (tryLock empty_db ''T1'' ''2024-01-01T10:00:00.000Z'')) ''T1''
            ''2024-01-01T10:05:00.000Z'')"
  by (simp add: tryLock_result select_status_empty_db select_status_insert_or_replace)

text \<open>
  C1, amended: for every identifier whose record is in state \<^verbatim>\<open>'processing'\<close>, a
  call of \<^verbatim>\<open>tryLock\<close> returns false and leaves the table as it is; once the record has
  been released as \<^verbatim>\<open>'failed'\<close>, \<^verbatim>\<open>tryLock\<close> returns true again.
\<close>

theorem tryLock_processing_refused:
  assumes "get_row d t = Some r" and "status r = Some processing"
  shows "tryLock d t now = (False, d) \<and> fst (tryLock (releaseLock d t failed) t now')"
proof -
  have st: "select_status d t = Some (Some processing)"
    using assms by (simp add: select_status_def)
  then have "select_status (releaseLock d t failed) t = Some (Some failed)"
    by (simp add: select_status_releaseLock)
  with st show ?thesis
    by (simp add: tryLock_result)
qed

theorem tryLock_processing_refused_witness:
  "get_row sample_db ''crashed'' =
     Some \<lparr>row_id = 3, tweet_id = ''crashed'', processed_at = ''2024-01-03T10:00:00.000Z'',
           category = ''review'', notion_page_id = None, raw_data = ''{}'',
           status = Some processing\<rparr> \<and>
   tryLock sample_db ''crashed'' ''2024-01-05T10:00:00.000Z'' = (False, sample_db) \<and>
   fst (tryLock (releaseLock sample_db ''crashed'' failed) ''crashed''
          ''2024-01-05T10:00:00.000Z'')"
proof -
  have g: "get_row sample_db ''crashed'' =
     Some \<lparr>row_id = 3, tweet_id = ''crashed'', processed_at = ''2024-01-03T10:00:00.000Z'',
           category = ''review'', notion_page_id = None, raw_data = ''{}'',
           status = Some processing\<rparr>"
    by (simp add: get_row_def sample_db_def)
  show ?thesis
    using g tryLock_processing_refused [OF g, of "''2024-01-05T10:00:00.000Z''"
        "''2024-01-05T10:00:00.000Z''"]
    by simp
qed

text \<open>
  C2: on a table that satisfies the unique constraint, \<^verbatim>\<open>tryLock\<close> returns true if
  and only if there is no record for the identifier or the record's status is
  \<^verbatim>\<open>'failed'\<close>; it returns false for a record whose status is \<^verbatim>\<open>'completed'\<close>,
  \<^verbatim>\<open>'processing'\<close> or null. On the empty table: claiming \<^verbatim>\<open>T1\<close> succeeds, claiming
  it again fails, and after \<^verbatim>\<open>releaseLock\<close> with \<^verbatim>\<open>'failed'\<close> claiming it succeeds.
\<close>

theorem tryLock_true_iff:
  assumes "unique_tweet_id d"
  shows "(fst (tryLock d t now) \<longleftrightarrow>
            t \<notin> tweet_id ` set (bookmarks d) \<or>
            (\<exists>r\<in>set (bookmarks d). tweet_id r = t \<and> status r = Some failed)) \<and>
         (\<forall>r\<in>set (bookmarks d).
            tweet_id r = t \<and>
            (status r = Some completed \<or> status r = Some processing \<or> status r = None) \<longrightarrow>
            \<not> fst (tryLock d t now)) \<and>
         (let (b1, d1) = tryLock empty_db ''T1'' n1;
              (b2, d2) = tryLock d1 ''T1'' n2;
              d3 = releaseLock d2 ''T1'' failed;
              (b4, d4) = tryLock d3 ''T1'' n4
          in b1 \<and> \<not> b2 \<and> b4)"
proof (intro conjI)
  show iff: "fst (tryLock d t now) \<longleftrightarrow>
      t \<notin> tweet_id ` set (bookmarks d) \<or>
      (\<exists>r\<in>set (bookmarks d). tweet_id r = t \<and> status r = Some failed)"
    using assms by (simp add: tryLock_result select_status_None select_status_Some)
  show "\<forall>r\<in>set (bookmarks d).
      tweet_id r = t \<and>
      (status r = Some completed \<or> status r = Some processing \<or> status r = None) \<longrightarrow>
      \<not> fst (tryLock d t now)"
  proof (intro ballI impI)
    fix r
    assume r: "r \<in> set (bookmarks d)"
      and h: "tweet_id r = t \<and>
        (status r = Some completed \<or> status r = Some processing \<or> status r = None)"
    have "select_status d t = Some (status r)"
      using select_status_Some [OF assms, of t "status r"] r h by blast
    with h show "\<not> fst (tryLock d t now)"
      by (auto simp: tryLock_result)
  qed
  show "let (b1, d1) = tryLock empty_db ''T1'' n1;
            (b2, d2) = tryLock d1 ''T1'' n2;
            d3 = releaseLock d2 ''T1'' failed;
            (b4, d4) = tryLock d3 ''T1'' n4
        in b1 \<and> \<not> b2 \<and> b4"
    by (simp add: tryLock_result select_status_empty_db select_status_insert_or_replace
        select_status_releaseLock)
qed

theorem tryLock_true_iff_witness:
  "unique_tweet_id sample_db \<and>
   fst (tryLock sample_db ''retry'' ''2024-01-05T10:00:00.000Z'') \<and>
   fst (tryLock sample_db ''unseen'' ''2024-01-05T10:00:00.000Z'') \<and>
   \<not> fst (tryLock sample_db ''done'' ''2024-01-05T10:00:00.000Z'') \<and>
   \<not> fst (tryLock sample_db ''crashed'' ''2024-01-05T10:00:00.000Z'') \<and>
   \<not> fst (tryLock sample_db ''legacy'' ''2024-01-05T10:00:00.000Z'')"
  using unique_sample_db
    tryLock_true_iff [OF unique_sample_db, of "''retry''" "''2024-01-05T10:00:00.000Z''"]
    tryLock_true_iff [OF unique_sample_db, of "''unseen''" "''2024-01-05T10:00:00.000Z''"]
    tryLock_true_iff [OF unique_sample_db, of "''done''" "''2024-01-05T10:00:00.000Z''"]
    tryLock_true_iff [OF unique_sample_db, of "''crashed''" "''2024-01-05T10:00:00.000Z''"]
    tryLock_true_iff [OF unique_sample_db, of "''legacy''" "''2024-01-05T10:00:00.000Z''"]
  by (simp add: sample_db_def)

text \<open>
  C3: on a table that satisfies the unique constraint, \<^verbatim>\<open>isProcessed\<close> returns true
  if and only if a record exists for the identifier and its status is
  \<^verbatim>\<open>'completed'\<close> or null; so a record without a status value counts as handled, and
  a record in state \<^verbatim>\<open>'processing'\<close> or \<^verbatim>\<open>'failed'\<close> does not.
\<close>

theorem isProcessed_iff:
  assumes "unique_tweet_id d"
  shows "(isProcessed d t \<longleftrightarrow>
            (\<exists>r\<in>set (bookmarks d).
               tweet_id r = t \<and> (status r = Some completed \<or> status r = None))) \<and>
         (\<forall>r\<in>set (bookmarks d).
            tweet_id r = t \<and> (status r = Some processing \<or> status r = Some failed) \<longrightarrow>
            \<not> isProcessed d t)"
proof (intro conjI ballI impI)
  show "isProcessed d t \<longleftrightarrow>
      (\<exists>r\<in>set (bookmarks d). tweet_id r = t \<and> (status r = Some completed \<or> status r = None))"
    using assms by (auto simp: isProcessed_result select_status_Some)
  fix r
  assume r: "r \<in> set (bookmarks d)"
    and h: "tweet_id r = t \<and> (status r = Some processing \<or> status r = Some failed)"
  have "select_status d t = Some (status r)"
    using select_status_Some [OF assms, of t "status r"] r h by blast
  with h show "\<not> isProcessed d t"
    by (auto simp: isProcessed_result)
qed

theorem isProcessed_iff_witness:
  "unique_tweet_id sample_db \<and>
   isProcessed sample_db ''legacy'' \<and> isProcessed sample_db ''done'' \<and>
   \<not> isProcessed sample_db ''crashed'' \<and> \<not> isProcessed sample_db ''retry'' \<and>
   \<not> isProcessed sample_db ''unseen''"
  using unique_sample_db
    isProcessed_iff [OF unique_sample_db, of "''legacy''"]
    isProcessed_iff [OF unique_sample_db, of "''done''"]
    isProcessed_iff [OF unique_sample_db, of "''crashed''"]
    isProcessed_iff [OF unique_sample_db, of "''retry''"]
    isProcessed_iff [OF unique_sample_db, of "''unseen''"]
  by (simp add: sample_db_def)

lemma filter_insert_or_replace_other:
  "filter (\<lambda>x. tweet_id x \<noteq> t) (bookmarks (insert_or_replace d t ts cat page raw st)) =
   filter (\<lambda>x. tweet_id x \<noteq> t) (bookmarks d)"
  by (simp add: insert_or_replace_def)

lemma filter_insert_or_replace_same:
  "filter (\<lambda>x. tweet_id x = t) (bookmarks (insert_or_replace d t ts cat page raw st)) =
   [\<lparr>row_id = Suc (autoincrement d), tweet_id = t, processed_at = ts,
          category = cat, notion_page_id = page, raw_data = raw, status = Some st\<rparr>]"
  by (simp add: insert_or_replace_def)

lemma releaseLock_absent:
  "t \<notin> tweet_id ` set (bookmarks d) \<Longrightarrow> releaseLock d t st = d"
proof -
  assume "t \<notin> tweet_id ` set (bookmarks d)"
  then have "map (\<lambda>r. if tweet_id r = t then r\<lparr>status := Some st\<rparr> else r) (bookmarks d) = bookmarks d"
    by (intro map_idI) auto
  then show ?thesis by (simp add: releaseLock_def)
qed

text \<open>
  C10: a successful \<^verbatim>\<open>tryLock\<close> on an identifier whose record is in state
  \<^verbatim>\<open>'failed'\<close> replaces the whole row: afterwards the one row of that identifier has
  the category \<^verbatim>\<open>'review'\<close>, the payload \<^verbatim>\<open>'{}'\<close>, no destination page, the time
  of the claim as \<^verbatim>\<open>processed_at\<close> and the status \<^verbatim>\<open>'processing'\<close>, whatever the
  record held before; the rows of other identifiers stay. \<^verbatim>\<open>releaseLock\<close> changes
  the status field of the identifier's row and nothing else, in any row, and changes
  nothing at all when the identifier has no row.
\<close>

theorem tryLock_replaces_releaseLock_keeps:
  "(get_row d t = Some r \<and> status r = Some failed \<longrightarrow>
      fst (tryLock d t now) \<and>
      filter (\<lambda>x. tweet_id x = t) (bookmarks (snd (tryLock d t now))) =
        [\<lparr>row_id = Suc (autoincrement d), tweet_id = t, processed_at = now,
          category = ''review'', notion_page_id = None, raw_data = ''{}'',
          status = Some processing\<rparr>] \<and>
      get_row (snd (tryLock d t now)) t =
        Some \<lparr>row_id = Suc (autoincrement d), tweet_id = t, processed_at = now,
          category = ''review'', notion_page_id = None, raw_data = ''{}'',
          status = Some processing\<rparr> \<and>
      filter (\<lambda>x. tweet_id x \<noteq> t) (bookmarks (snd (tryLock d t now))) =
        filter (\<lambda>x. tweet_id x \<noteq> t) (bookmarks d)) \<and>
   length (bookmarks (releaseLock d t st)) = length (bookmarks d) \<and>
   (\<forall>i<length (bookmarks d).
      bookmarks (releaseLock d t st) ! i =
        (if tweet_id (bookmarks d ! i) = t then (bookmarks d ! i)\<lparr>status := Some st\<rparr>
         else bookmarks d ! i)) \<and>
   autoincrement (releaseLock d t st) = autoincrement d \<and>
   (t \<notin> tweet_id ` set (bookmarks d) \<longrightarrow> releaseLock d t st = d)"
proof (intro conjI impI allI)
  assume h: "get_row d t = Some r \<and> status r = Some failed"
  then have st: "select_status d t = Some (Some failed)"
    by (simp add: select_status_def)
  then have tl: "tryLock d t now = (True, insert_or_replace d t now ''review'' None ''{}'' processing)"
    by (simp add: tryLock_result)
  show "fst (tryLock d t now)" by (simp add: tl)
  show "filter (\<lambda>x. tweet_id x = t) (bookmarks (snd (tryLock d t now))) =
        [\<lparr>row_id = Suc (autoincrement d), tweet_id = t, processed_at = now,
          category = ''review'', notion_page_id = None, raw_data = ''{}'',
          status = Some processing\<rparr>]"
    by (simp add: tl filter_insert_or_replace_same)
  show "get_row (snd (tryLock d t now)) t =
        Some \<lparr>row_id = Suc (autoincrement d), tweet_id = t, processed_at = now,
          category = ''review'', notion_page_id = None, raw_data = ''{}'',
          status = Some processing\<rparr>"
    by (simp add: tl get_row_insert_or_replace)
  show "filter (\<lambda>x. tweet_id x \<noteq> t) (bookmarks (snd (tryLock d t now))) =
        filter (\<lambda>x. tweet_id x \<noteq> t) (bookmarks d)"
    by (simp add: tl filter_insert_or_replace_other)
next
  show "length (bookmarks (releaseLock d t st)) = length (bookmarks d)"
    by (simp add: bookmarks_releaseLock)
  show "autoincrement (releaseLock d t st) = autoincrement d"
    by (simp add: releaseLock_def)
next
  fix i assume "i < length (bookmarks d)"
  then show "bookmarks (releaseLock d t st) ! i =
        (if tweet_id (bookmarks d ! i) = t then (bookmarks d ! i)\<lparr>status := Some st\<rparr>
         else bookmarks d ! i)"
    by (simp add: bookmarks_releaseLock)
next
  assume "t \<notin> tweet_id ` set (bookmarks d)"
  then show "releaseLock d t st = d" by (rule releaseLock_absent)
qed

theorem tryLock_replaces_releaseLock_keeps_witness:
  "get_row sample_db ''retry'' =
     Some \<lparr>row_id = 4, tweet_id = ''retry'', processed_at = ''2024-01-04T10:00:00.000Z'',
          category = ''tool'', notion_page_id = Some ''page-4'', raw_data = ''not valid json'',
          status = Some failed\<rparr> \<and>
   get_row (snd (tryLock sample_db ''retry'' ''2024-01-05T10:00:00.000Z'')) ''retry'' =
     Some \<lparr>row_id = 5, tweet_id = ''retry'', processed_at = ''2024-01-05T10:00:00.000Z'',
          category = ''review'', notion_page_id = None, raw_data = ''{}'',
          status = Some processing\<rparr> \<and>
   bookmarks (releaseLock sample_db ''retry'' processing) ! 3 =
     \<lparr>row_id = 4, tweet_id = ''retry'', processed_at = ''2024-01-04T10:00:00.000Z'',
          category = ''tool'', notion_page_id = Some ''page-4'', raw_data = ''not valid json'',
          status = Some processing\<rparr> \<and>
   bookmarks (releaseLock sample_db ''retry'' processing) ! 2 = bookmarks sample_db ! 2 \<and>
   releaseLock sample_db ''unseen'' failed = sample_db"
proof -
  have g: "get_row sample_db ''retry'' =
     Some \<lparr>row_id = 4, tweet_id = ''retry'', processed_at = ''2024-01-04T10:00:00.000Z'',
          category = ''tool'', notion_page_id = Some ''page-4'', raw_data = ''not valid json'',
          status = Some failed\<rparr>"
    by (simp add: get_row_def sample_db_def)
  have a: "autoincrement sample_db = 4" "length (bookmarks sample_db) = 4"
    "bookmarks sample_db ! 3 =
       \<lparr>row_id = 4, tweet_id = ''retry'', processed_at = ''2024-01-04T10:00:00.000Z'',
          category = ''tool'', notion_page_id = Some ''page-4'', raw_data = ''not valid json'',
          status = Some failed\<rparr>"
    "tweet_id (bookmarks sample_db ! 2) = ''crashed''"
    "''unseen'' \<notin> tweet_id ` set (bookmarks sample_db)"
    by (simp_all add: sample_db_def)
  note T = tryLock_replaces_releaseLock_keeps
      [of sample_db "''retry''"
          "\<lparr>row_id = 4, tweet_id = ''retry'', processed_at = ''2024-01-04T10:00:00.000Z'',
            category = ''tool'', notion_page_id = Some ''page-4'',
            raw_data = ''not valid json'', status = Some failed\<rparr>"
          "''2024-01-05T10:00:00.000Z''" processing]
  have 1: "get_row (snd (tryLock sample_db ''retry'' ''2024-01-05T10:00:00.000Z'')) ''retry'' =
     Some \<lparr>row_id = 5, tweet_id = ''retry'', processed_at = ''2024-01-05T10:00:00.000Z'',
          category = ''review'', notion_page_id = None, raw_data = ''{}'',
          status = Some processing\<rparr>"
    using T g a(1) by simp
  have "\<forall>i<length (bookmarks sample_db).
      bookmarks (releaseLock sample_db ''retry'' processing) ! i =
        (if tweet_id (bookmarks sample_db ! i) = ''retry''
         then (bookmarks sample_db ! i)\<lparr>status := Some processing\<rparr>
         else bookmarks sample_db ! i)"
    using T by blast
  then have 2: "bookmarks (releaseLock sample_db ''retry'' processing) ! 3 =
        (if tweet_id (bookmarks sample_db ! 3) = ''retry''
         then (bookmarks sample_db ! 3)\<lparr>status := Some processing\<rparr>
         else bookmarks sample_db ! 3)"
    and 3: "bookmarks (releaseLock sample_db ''retry'' processing) ! 2 =
        (if tweet_id (bookmarks sample_db ! 2) = ''retry''
         then (bookmarks sample_db ! 2)\<lparr>status := Some processing\<rparr>
         else bookmarks sample_db ! 2)"
    using a(2) by simp_all
  have 4: "releaseLock sample_db ''unseen'' failed = sample_db"
    using a(5) tryLock_replaces_releaseLock_keeps
        [of sample_db "''unseen''" "bookmarks sample_db ! 0" "''2024-01-05T10:00:00.000Z''" failed]
    by blast
  show ?thesis
    using g 1 2 3 4 a(3,4) by simp
qed

subsection \<open>Properties of the aggregates\<close>

lemma weekly_row_byCategory:
  "acc_byCategory (weekly_row parse acc r) =
     (acc_byCategory acc)(category r \<mapsto> or_zero (acc_byCategory acc (category r)) + 1)"
  by (simp add: weekly_row_def Let_def split: option.splits)

lemma count_tags_Nil: "count_tags tc [] = tc"
  by (simp add: count_tags_def)

lemma weekly_row_tagCounts:
  "acc_tagCounts (weekly_row parse acc r) = count_tags (acc_tagCounts acc) (row_tags parse r)"
  by (simp add: weekly_row_def Let_def row_tags_def count_tags_Nil split: option.splits)


lemma foldl_byCategory:
  "acc_byCategory (foldl (weekly_row parse) acc rs) c =
     (if \<exists>r\<in>set rs. category r = c
      then Some (or_zero (acc_byCategory acc c) + length (filter (\<lambda>r. category r = c) rs))
      else acc_byCategory acc c)"
proof (induction rs arbitrary: acc)
  case Nil
  then show ?case by simp
next
  case (Cons r rs)
  show ?case
    by (simp add: Cons.IH weekly_row_byCategory or_zero_def)
qed

lemma count_tags_append: "count_tags tc (xs @ ys) = count_tags (count_tags tc xs) ys"
  by (simp add: count_tags_def)

lemma foldl_tagCounts:
  "acc_tagCounts (foldl (weekly_row parse) acc rs) =
     count_tags (acc_tagCounts acc) (concat (map (row_tags parse) rs))"
  by (induction rs arbitrary: acc) (simp_all add: count_tags_Nil count_tags_append weekly_row_tagCounts)


lemma or_zero_simps: "or_zero None = 0" "or_zero (Some n) = n"
  by (simp_all add: or_zero_def)










lemma mset_select_since:
  "mset (select_since d w) = mset (filter (in_window w) (bookmarks d))"
  by (simp add: select_since_def in_window_def[abs_def])


lemma length_filter_mset_eq:
  "mset xs = mset ys \<Longrightarrow> length (filter P xs) = length (filter P ys)"
  by (metis mset_filter size_mset)




lemma length_select_since:
  "length (select_since d w) = length (filter (in_window w) (bookmarks d))"
  by (simp add: select_since_def in_window_def[abs_def])

lemma set_select_since:
  "set (select_since d w) = {r \<in> set (bookmarks d). in_window w r}"
  by (auto simp: select_since_def in_window_def)



lemma weekly_tagCounts:
  "acc_tagCounts (foldl (weekly_row parse)
      \<lparr>acc_byCategory = Map.empty, acc_tagCounts = [], acc_highlights = []\<rparr> rs) =
   count_tags [] (concat (map (row_tags parse) rs))"
  by (simp add: foldl_tagCounts)


lemma getWeeklyStats_fields:
  "totalProcessed (getWeeklyStats d parse w) = length (select_since d w)"
  "byCategory (getWeeklyStats d parse w) =
     acc_byCategory (foldl (weekly_row parse)
       \<lparr>acc_byCategory = Map.empty, acc_tagCounts = [], acc_highlights = []\<rparr>
       (select_since d w))"
  "topTags (getWeeklyStats d parse w) =
     top_tags (count_tags [] (concat (map (row_tags parse) (select_since d w))))"
  "highlights (getWeeklyStats d parse w) =
     acc_highlights (foldl (weekly_row parse)
       \<lparr>acc_byCategory = Map.empty, acc_tagCounts = [], acc_highlights = []\<rparr>
       (select_since d w))"
  by (simp_all add: getWeeklyStats_def Let_def weekly_tagCounts)

lemma weekly_byCategory:
  "byCategory (getWeeklyStats d parse w) c =
     (if \<exists>r\<in>set (bookmarks d). in_window w r \<and> category r = c
      then Some (length (filter (\<lambda>r. in_window w r \<and> category r = c) (bookmarks d)))
      else None)"
proof -
  have "length (filter (\<lambda>r. category r = c) (select_since d w)) =
        length (filter (\<lambda>r. category r = c) (filter (in_window w) (bookmarks d)))"
    by (rule length_filter_mset_eq) (rule mset_select_since)
  also have "\<dots> = length (filter (\<lambda>r. in_window w r \<and> category r = c) (bookmarks d))"
    by (simp add: conj_commute)
  finally show ?thesis
    by (auto simp: getWeeklyStats_fields foldl_byCategory set_select_since or_zero_simps)
qed





subsection \<open>Properties of the clock\<close>

lemma div_succ:
  fixes a n :: int
  assumes "0 < n"
  shows "(a + 1) div n = a div n + (if (a + 1) mod n = 0 then 1 else 0)"
proof (cases "a mod n + 1 < n")
  case True
  have e: "a + 1 = n * (a div n) + (a mod n + 1)"
    by simp
  have nn: "0 \<le> a mod n"
    using assms by (rule pos_mod_sign)
  then have nn1: "0 \<le> a mod n + 1"
    by linarith
  from int_div_pos_eq [OF e nn1 True] have d: "(a + 1) div n = a div n" .
  from int_mod_pos_eq [OF e nn1 True] have "(a + 1) mod n = a mod n + 1" .
  with nn have "(a + 1) mod n \<noteq> 0"
    by linarith
  with d show ?thesis
    by simp
next
  case False
  with assms have e: "a mod n + 1 = n"
    using pos_mod_bound [OF assms, of a] by linarith
  have "a + 1 = n * (a div n) + (a mod n + 1)"
    by simp
  also have "\<dots> = n * (a div n + 1) + 0"
    unfolding e by (simp add: algebra_simps)
  finally have "a + 1 = n * (a div n + 1) + 0" .
  from int_div_pos_eq [OF this order_refl assms] int_mod_pos_eq [OF this order_refl assms]
  show ?thesis
    by simp
qed

lemma mod_shift:
  "(y - 1968) mod 4 = y mod 4" "(y - 1900) mod 100 = y mod 100" "(y - 1600) mod 400 = y mod 400"
  for y :: int
proof -
  have "y - 1968 = y + 4 * (- 492)" "y - 1900 = y + 100 * (- 19)" "y - 1600 = y + 400 * (- 4)"
    by simp_all
  then show "(y - 1968) mod 4 = y mod 4" "(y - 1900) mod 100 = y mod 100"
    "(y - 1600) mod 400 = y mod 400"
    by (simp_all only: mod_mult_self2)
qed

lemma mod_divides:
  "y mod 100 = 0 \<Longrightarrow> y mod 4 = 0" "y mod 400 = 0 \<Longrightarrow> y mod 100 = 0" for y :: int
proof -
  have "(4 :: int) dvd 100" "(100 :: int) dvd 400"
    by simp_all
  then show "y mod 100 = 0 \<Longrightarrow> y mod 4 = 0" "y mod 400 = 0 \<Longrightarrow> y mod 100 = 0"
    by (meson dvd_trans mod_0_imp_dvd dvd_imp_mod_0)+
qed

lemma DayFromYear_step: "DayFromYear (y + 1) = DayFromYear y + DaysInYear y"
proof -
  have a: "(y + 1 - 1969) div 4 = (y - 1969) div 4 + (if y mod 4 = 0 then 1 else 0)"
    using div_succ [of 4 "y - 1969"] mod_shift(1) [of y] by (simp add: algebra_simps)
  have b: "(y + 1 - 1901) div 100 = (y - 1901) div 100 + (if y mod 100 = 0 then 1 else 0)"
    using div_succ [of 100 "y - 1901"] mod_shift(2) [of y] by (simp add: algebra_simps)
  have c: "(y + 1 - 1601) div 400 = (y - 1601) div 400 + (if y mod 400 = 0 then 1 else 0)"
    using div_succ [of 400 "y - 1601"] mod_shift(3) [of y] by (simp add: algebra_simps)
  show ?thesis
    unfolding DayFromYear_def DaysInYear_def a b c
    using mod_divides [of y] by auto
qed

lemma DaysInYear_bounds: "365 \<le> DaysInYear y \<and> DaysInYear y \<le> 366"
  by (simp add: DaysInYear_def)

lemma DayFromYear_mono: "y \<le> y' \<Longrightarrow> DayFromYear y \<le> DayFromYear y'"
proof (induction y' rule: int_ge_induct)
  case base
  then show ?case by simp
next
  case (step i)
  then show ?case
    using DayFromYear_step [of i] DaysInYear_bounds [of i] by linarith
qed

lemma DayFromYear_strict: "y < y' \<Longrightarrow> DayFromYear y < DayFromYear y'"
  using DayFromYear_mono [of "y + 1" y'] DayFromYear_step [of y] DaysInYear_bounds [of y]
  by linarith

lemma DayFromYear_1970: "DayFromYear 1970 = 0"
  by (simp add: DayFromYear_def)

lemma DayFromYear_upper: "0 \<le> k \<Longrightarrow> DayFromYear (1970 + k) \<le> 366 * k"
proof (induction k rule: int_ge_induct)
  case base
  then show ?case by (simp add: DayFromYear_1970)
next
  case (step i)
  then show ?case
    using DayFromYear_step [of "1970 + i"] DaysInYear_bounds [of "1970 + i"]
    by (simp add: algebra_simps)
qed

lemma DayFromYear_lower: "k \<le> 0 \<Longrightarrow> DayFromYear (1970 + k) \<le> 365 * k"
proof (induction k rule: int_le_induct)
  case base
  then show ?case by (simp add: DayFromYear_1970)
next
  case (step i)
  then show ?case
    using DayFromYear_step [of "1970 + (i - 1)"] DaysInYear_bounds [of "1970 + (i - 1)"]
    by (simp add: algebra_simps)
qed

lemma year_search_correct:
  "DayFromYear y \<le> d \<Longrightarrow>
   DayFromYear (year_search y d) \<le> d \<and> d < DayFromYear (year_search y d + 1)"
proof (induction y d rule: year_search.induct)
  case (1 y d)
  show ?case
  proof (cases "DayFromYear (y + 1) \<le> d")
    case True
    with 1 show ?thesis
      by (simp add: year_search.simps [of y d])
  next
    case False
    with 1 show ?thesis
      by (simp add: year_search.simps [of y d])
  qed
qed

lemma year_estimate:
  "DayFromYear (1970 + (if 0 \<le> d then d div 366 else d div 365)) \<le> d"
proof (cases "0 \<le> d")
  case True
  then have "0 \<le> d div 366"
    by simp
  from DayFromYear_upper [OF this] have "DayFromYear (1970 + d div 366) \<le> 366 * (d div 366)" .
  also have "\<dots> \<le> d"
    using mult_div_mod_eq [of 366 d] pos_mod_sign [of 366 d] by linarith
  finally show ?thesis
    using True by simp
next
  case False
  then have "d div 365 \<le> 0"
    by (simp add: div_nonpos_pos_le0)
  from DayFromYear_lower [OF this] have "DayFromYear (1970 + d div 365) \<le> 365 * (d div 365)" .
  also have "\<dots> \<le> d"
    using mult_div_mod_eq [of 365 d] pos_mod_sign [of 365 d] by linarith
  finally show ?thesis
    using False by simp
qed

lemma YearFromTime_bounds:
  "DayFromYear (YearFromTime t) \<le> Day t \<and> Day t < DayFromYear (YearFromTime t + 1)"
  unfolding YearFromTime_def Let_def
  by (rule year_search_correct) (rule year_estimate)

lemma YearFromTime_unique:
  assumes "DayFromYear y \<le> Day t" and "Day t < DayFromYear (y + 1)"
  shows "YearFromTime t = y"
proof (rule ccontr)
  assume n: "YearFromTime t \<noteq> y"
  note b = YearFromTime_bounds [of t]
  show False
  proof (cases "YearFromTime t < y")
    case True
    then have "DayFromYear (YearFromTime t + 1) \<le> DayFromYear y"
      by (intro DayFromYear_mono) simp
    with assms b show False by linarith
  next
    case False
    with n have "DayFromYear (y + 1) \<le> DayFromYear (YearFromTime t)"
      by (intro DayFromYear_mono) simp
    with assms b show False by linarith
  qed
qed




lemma month_of_day_range: "0 \<le> month_of_day l d \<and> month_of_day l d \<le> 11"
  by (simp add: month_of_day_def)

lemma date_of_day_eq: "date_of_day l d = d - month_start l (month_of_day l d) + 1"
  by (simp add: date_of_day_def month_of_day_def month_start_def)



lemma MonthFromTime_range: "0 \<le> MonthFromTime t \<and> MonthFromTime t \<le> 11"
  by (simp add: MonthFromTime_def month_of_day_range)


lemma DateFromTime_eq:
  "DateFromTime t = DayWithinYear t - month_start (InLeapYear t) (MonthFromTime t) + 1"
  by (simp add: DateFromTime_def MonthFromTime_def date_of_day_eq)







lemma append_less_same_length:
  "length a = length b \<Longrightarrow> (a @ x < b @ y) = (a < b \<or> a = b \<and> x < y)"
  for a b x y :: "'a :: linorder list"
  by (induction a b rule: list_induct2) auto



lemma length_pad: "length (pad k n) = k"
  by (induction k arbitrary: n) simp_all







lemma MakeDay_same_month:
  "MakeDay (YearFromTime t) (MonthFromTime t) (DateFromTime t + n) = Day t + n"
proof -
  have "MonthFromTime t div 12 = 0" "MonthFromTime t mod 12 = MonthFromTime t"
    using MonthFromTime_range [of t] by simp_all
  then show ?thesis
    by (simp add: MakeDay_def DateFromTime_eq DayWithinYear_def InLeapYear_def)
qed

lemma setDate_getDate:
  "setDate tza now (getDate tza now + n) = UTC tza (LocalTime tza now + n * msPerDay)"
proof -
  have "MakeDate (Day t + n) (TimeWithinDay t) = t + n * msPerDay" for t
    by (simp add: MakeDate_def Day_def TimeWithinDay_def algebra_simps)
  then show ?thesis
    by (simp add: setDate_def getDate_def Let_def MakeDay_same_month)
qed

lemma weekAgo_eq: "weekAgo tza now = UTC tza (LocalTime tza now - 604800000)"
  using setDate_getDate [of tza now "- 7"] by (simp add: weekAgo_def msPerDay_def)

lemma weekAgo_fixed_offset:
  "tza (LocalTime tza now - 604800000) False = tza now True \<Longrightarrow>
   weekAgo tza now = now - 604800000"
  by (simp add: weekAgo_eq UTC_def LocalTime_def)


lemma month_start_values:
  "month_start l 0 = 0" "month_start l 1 = 31" "month_start l 2 = 59 + l"
  "month_start l 3 = 90 + l" "month_start l 4 = 120 + l" "month_start l 5 = 151 + l"
  "month_start l 6 = 181 + l" "month_start l 7 = 212 + l" "month_start l 8 = 243 + l"
  "month_start l 9 = 273 + l" "month_start l 10 = 304 + l" "month_start l 11 = 334 + l"
  by (simp_all add: month_start_def)

lemma MakeDay_first_of_month:
  assumes "0 \<le> m" and "m \<le> 11"
  shows "YearFromTime (MakeDay y m 1 * msPerDay) = y \<and>
         MonthFromTime (MakeDay y m 1 * msPerDay) = m \<and>
         DateFromTime (MakeDay y m 1 * msPerDay) = 1"
proof -
  define l :: int where "l = (if DaysInYear y = 366 then 1 else 0)"
  let ?t = "MakeDay y m 1 * msPerDay"
  from assms have "m = 0 \<or> m = 1 \<or> m = 2 \<or> m = 3 \<or> m = 4 \<or> m = 5 \<or> m = 6 \<or> m = 7 \<or>
      m = 8 \<or> m = 9 \<or> m = 10 \<or> m = 11"
    by presburger
  then have s: "0 \<le> month_start l m \<and> month_start l m < 365 + l \<and>
      month_of_day l (month_start l m) = m"
    unfolding l_def by (elim disjE) (simp_all add: month_start_values month_of_day_def)
  have md: "m div 12 = 0" "m mod 12 = m"
    using assms by simp_all
  have d: "Day ?t = DayFromYear y + month_start l m"
    by (simp add: MakeDay_def md l_def Day_def msPerDay_def)
  have "DaysInYear y = 365 + l"
    using DaysInYear_bounds [of y] by (auto simp: l_def DaysInYear_def)
  with s d have "DayFromYear y \<le> Day ?t" "Day ?t < DayFromYear (y + 1)"
    by (simp_all add: DayFromYear_step)
  from YearFromTime_unique [OF this] have y: "YearFromTime ?t = y" .
  then have w: "DayWithinYear ?t = month_start l m" and i: "InLeapYear ?t = l"
    by (simp_all add: DayWithinYear_def d InLeapYear_def l_def)
  from s have mo: "MonthFromTime ?t = m"
    by (simp add: MonthFromTime_def w i)
  then have "DateFromTime ?t = 1"
    by (simp add: DateFromTime_eq w i)
  with y mo show ?thesis
    by simp
qed

subsection \<open>Claims about the aggregates and the weekly window\<close>

lemma toISOString_samples:
  "toISOString 0 = ''1970-01-01T00:00:00.000Z''"
  "toISOString 951782400000 = ''2000-02-29T00:00:00.000Z''"
  "toISOString (- 62167219200000) = ''0000-01-01T00:00:00.000Z''"
  "toISOString 253402300799999 = ''9999-12-31T23:59:59.999Z''"
  by code_simp+



lemma insort_key_map_same:
  assumes "\<And>x. f (h x) = f x"
  shows "insort_key f (h x) (map h xs) = map h (insort_key f x xs)"
  by (induction xs) (simp_all add: assms)

lemma sort_key_map_same:
  assumes "\<And>x. f (h x) = f x"
  shows "sort_key f (map h xs) = map h (sort_key f xs)"
  using assms by (induction xs) (simp_all add: insort_key_map_same)

lemma select_since_set_statuses:
  "select_since (set_statuses g d) w = map (\<lambda>r. r\<lparr>status := g r\<rparr>) (select_since d w)"
proof -
  have "filter (\<lambda>r. w \<le> processed_at r) (map (\<lambda>r. r\<lparr>status := g r\<rparr>) rs) =
        map (\<lambda>r. r\<lparr>status := g r\<rparr>) (filter (\<lambda>r. w \<le> processed_at r) rs)" for rs
    by (induction rs) simp_all
  then show ?thesis
    by (simp add: select_since_def set_statuses_def sort_key_map_same rev_map)
qed

lemma weekly_row_status: "weekly_row parse acc (r\<lparr>status := x\<rparr>) = weekly_row parse acc r"
  by (simp add: weekly_row_def Let_def split: option.splits)

lemma foldl_weekly_row_status:
  "foldl (weekly_row parse) acc (map (\<lambda>r. r\<lparr>status := g r\<rparr>) rs) = foldl (weekly_row parse) acc rs"
  by (induction rs arbitrary: acc) (simp_all add: weekly_row_status)

lemma getWeeklyStats_set_statuses:
  "getWeeklyStats (set_statuses g d) parse w = getWeeklyStats d parse w"
  by (simp add: getWeeklyStats_def Let_def select_since_set_statuses foldl_weekly_row_status)

lemma group_by_category_status:
  "group_by_category (map (\<lambda>r. r\<lparr>status := g r\<rparr>) rs) = group_by_category rs"
proof -
  have "filter (\<lambda>r. category r = c) (map (\<lambda>r. r\<lparr>status := g r\<rparr>) rs) =
        map (\<lambda>r. r\<lparr>status := g r\<rparr>) (filter (\<lambda>r. category r = c) rs)" for c
    by (induction rs) simp_all
  then show ?thesis
    by (simp add: group_by_category_def comp_def)
qed

lemma getStats_set_statuses: "getStats (set_statuses g d) = getStats d"
  by (simp add: getStats_def set_statuses_def group_by_category_status)

lemma releaseLock_set_statuses:
  "releaseLock d t st = set_statuses (\<lambda>r. if tweet_id r = t then Some st else status r) d"
proof -
  have "(\<lambda>r. if tweet_id r = t then r\<lparr>status := Some st\<rparr> else r) =
        (\<lambda>r. r\<lparr>status := if tweet_id r = t then Some st else status r\<rparr>)"
    by (rule ext) simp
  then show ?thesis
    by (simp add: releaseLock_def set_statuses_def)
qed

lemma foldl_upd_distinct:
  "distinct (map fst xs) \<Longrightarrow>
   foldl (\<lambda>acc (c, n). acc(c \<mapsto> n)) m xs c =
     (case map_of xs c of Some n \<Rightarrow> Some n | None \<Rightarrow> m c)"
proof (induction xs arbitrary: m)
  case Nil
  then show ?case by simp
next
  case (Cons x xs)
  obtain a b where x: "x = (a, b)" by (cases x)
  from Cons.prems x have "map_of xs a = None"
    by (simp add: map_of_eq_None_iff)
  with Cons x show ?case
    by (simp split: option.splits)
qed

lemma getStats_byCategory:
  "stats_byCategory (getStats d) c =
     (if \<exists>r\<in>set (bookmarks d). category r = c
      then Some (length (filter (\<lambda>r. category r = c) (bookmarks d)))
      else None)"
proof -
  have d: "distinct (map fst (group_by_category (bookmarks d)))"
    by (simp add: group_by_category_def comp_def)
  have "map_of (group_by_category (bookmarks d)) c =
        (if c \<in> category ` set (bookmarks d)
         then Some (length (filter (\<lambda>r. category r = c) (bookmarks d))) else None)"
    by (simp add: group_by_category_def map_of_map_restrict restrict_map_def)
  then show ?thesis
    by (auto simp: getStats_def foldl_upd_distinct [OF d])
qed

lemma bookmarks_tryLock:
  "fst (tryLock d t now) \<Longrightarrow>
   bookmarks (snd (tryLock d t now)) =
     filter (\<lambda>r. tweet_id r \<noteq> t) (bookmarks d) @
     [\<lparr>row_id = Suc (autoincrement d), tweet_id = t, processed_at = now,
       category = ''review'', notion_page_id = None, raw_data = ''{}'',
       status = Some processing\<rparr>]"
  by (cases "select_status d t = None \<or> select_status d t = Some (Some failed)")
    (simp_all add: tryLock_result insert_or_replace_def)

text \<open>
  C9: neither \<^verbatim>\<open>getStats\<close> nor \<^verbatim>\<open>getWeeklyStats\<close> looks at the lifecycle state:
  rewriting the states of all records changes neither result, and every record in the
  window is counted whatever its state. In particular, after a successful
  \<^verbatim>\<open>tryLock\<close> at a time inside the window the placeholder row is counted in
  \<^verbatim>\<open>totalProcessed\<close>, in the total of \<^verbatim>\<open>getStats\<close> and under the category
  \<^verbatim>\<open>'review'\<close>, and releasing it as \<^verbatim>\<open>'failed'\<close> changes neither aggregate.
\<close>

theorem stats_ignore_status:
  "getStats (set_statuses g d) = getStats d \<and>
   getWeeklyStats (set_statuses g d) parse w = getWeeklyStats d parse w \<and>
   (\<forall>r\<in>set (bookmarks d). in_window w r \<longrightarrow>
      r \<in> set (select_since d w) \<and>
      0 < totalProcessed (getWeeklyStats d parse w) \<and>
      (\<exists>n>0. byCategory (getWeeklyStats d parse w) (category r) = Some n) \<and>
      (\<exists>n>0. stats_byCategory (getStats d) (category r) = Some n)) \<and>
   (fst (tryLock d t now) \<and> w \<le> now \<longrightarrow>
      totalProcessed (getWeeklyStats (snd (tryLock d t now)) parse w) =
        Suc (length (filter (\<lambda>r. in_window w r \<and> tweet_id r \<noteq> t) (bookmarks d))) \<and>
      byCategory (getWeeklyStats (snd (tryLock d t now)) parse w) ''review'' =
        Some (Suc (length (filter
          (\<lambda>r. in_window w r \<and> category r = ''review'' \<and> tweet_id r \<noteq> t) (bookmarks d)))) \<and>
      stats_total (getStats (snd (tryLock d t now))) =
        Suc (length (filter (\<lambda>r. tweet_id r \<noteq> t) (bookmarks d))) \<and>
      stats_byCategory (getStats (snd (tryLock d t now))) ''review'' =
        Some (Suc (length (filter
          (\<lambda>r. category r = ''review'' \<and> tweet_id r \<noteq> t) (bookmarks d)))) \<and>
      getWeeklyStats (releaseLock (snd (tryLock d t now)) t failed) parse w =
        getWeeklyStats (snd (tryLock d t now)) parse w \<and>
      getStats (releaseLock (snd (tryLock d t now)) t failed) =
        getStats (snd (tryLock d t now)))"
proof (intro conjI ballI impI)
  show "getStats (set_statuses g d) = getStats d"
    by (rule getStats_set_statuses)
  show "getWeeklyStats (set_statuses g d) parse w = getWeeklyStats d parse w"
    by (rule getWeeklyStats_set_statuses)
next
  fix r
  assume r: "r \<in> set (bookmarks d)" and iw: "in_window w r"
  then show m: "r \<in> set (select_since d w)"
    by (simp add: set_select_since)
  then have "select_since d w \<noteq> []" by auto
  then show "0 < totalProcessed (getWeeklyStats d parse w)"
    by (simp add: getWeeklyStats_fields)
  have "0 < length (filter (\<lambda>x. in_window w x \<and> category x = category r) (bookmarks d))"
    using r iw by (auto simp: filter_empty_conv)
  then show "\<exists>n>0. byCategory (getWeeklyStats d parse w) (category r) = Some n"
    using r iw by (auto simp: weekly_byCategory)
  have "0 < length (filter (\<lambda>x. category x = category r) (bookmarks d))"
    using r by (auto simp: filter_empty_conv)
  then show "\<exists>n>0. stats_byCategory (getStats d) (category r) = Some n"
    using r by (auto simp: getStats_byCategory)
next
  assume h: "fst (tryLock d t now) \<and> w \<le> now"
  from h have "fst (tryLock d t now)" by simp
  note b = bookmarks_tryLock [OF this]
  from h have iw: "in_window w \<lparr>row_id = Suc (autoincrement d), tweet_id = t, processed_at = now,
       category = ''review'', notion_page_id = None, raw_data = ''{}'',
       status = Some processing\<rparr>"
    by (simp add: in_window_def)
  show "totalProcessed (getWeeklyStats (snd (tryLock d t now)) parse w) =
        Suc (length (filter (\<lambda>r. in_window w r \<and> tweet_id r \<noteq> t) (bookmarks d)))"
    using iw by (simp add: getWeeklyStats_fields length_select_since b conj_commute)
  show "byCategory (getWeeklyStats (snd (tryLock d t now)) parse w) ''review'' =
        Some (Suc (length (filter
          (\<lambda>r. in_window w r \<and> category r = ''review'' \<and> tweet_id r \<noteq> t) (bookmarks d))))"
    using iw by (simp add: weekly_byCategory b conj_ac)
  show "stats_total (getStats (snd (tryLock d t now))) =
        Suc (length (filter (\<lambda>r. tweet_id r \<noteq> t) (bookmarks d)))"
    by (simp add: getStats_def b)
  show "stats_byCategory (getStats (snd (tryLock d t now))) ''review'' =
        Some (Suc (length (filter
          (\<lambda>r. category r = ''review'' \<and> tweet_id r \<noteq> t) (bookmarks d))))"
    by (simp add: getStats_byCategory b conj_ac)
  show "getWeeklyStats (releaseLock (snd (tryLock d t now)) t failed) parse w =
        getWeeklyStats (snd (tryLock d t now)) parse w"
    by (simp add: releaseLock_set_statuses getWeeklyStats_set_statuses)
  show "getStats (releaseLock (snd (tryLock d t now)) t failed) =
        getStats (snd (tryLock d t now))"
    by (simp add: releaseLock_set_statuses getStats_set_statuses)
qed


theorem stats_ignore_status_witness:
  "fst (tryLock empty_db ''T1'' ''2024-01-10T10:00:00.000Z'') \<and>
   ''2024-01-08T10:00:00.000Z'' \<le> ''2024-01-10T10:00:00.000Z'' \<and>
   totalProcessed (getWeeklyStats (snd (tryLock empty_db ''T1'' ''2024-01-10T10:00:00.000Z''))
     sample_parse ''2024-01-08T10:00:00.000Z'') = 1 \<and>
   byCategory (getWeeklyStats (snd (tryLock empty_db ''T1'' ''2024-01-10T10:00:00.000Z''))
     sample_parse ''2024-01-08T10:00:00.000Z'') ''review'' = Some 1 \<and>
   stats_total (getStats (snd (tryLock empty_db ''T1'' ''2024-01-10T10:00:00.000Z''))) = 1 \<and>
   stats_byCategory (getStats (snd (tryLock empty_db ''T1'' ''2024-01-10T10:00:00.000Z'')))
     ''review'' = Some 1 \<and>
   totalProcessed (getWeeklyStats
     (releaseLock (snd (tryLock empty_db ''T1'' ''2024-01-10T10:00:00.000Z'')) ''T1'' failed)
     sample_parse ''2024-01-08T10:00:00.000Z'') = 1 \<and>
   stats_total (getStats
     (releaseLock (snd (tryLock empty_db ''T1'' ''2024-01-10T10:00:00.000Z'')) ''T1'' failed)) = 1 \<and>
   in_window ''2024-01-03T00:00:00.000Z'' (bookmarks sample_db ! 2) \<and>
   status (bookmarks sample_db ! 2) = Some processing \<and>
   in_window ''2024-01-03T00:00:00.000Z'' (bookmarks sample_db ! 3) \<and>
   status (bookmarks sample_db ! 3) = Some failed \<and>
   bookmarks sample_db ! 2 \<in> set (select_since sample_db ''2024-01-03T00:00:00.000Z'') \<and>
   bookmarks sample_db ! 3 \<in> set (select_since sample_db ''2024-01-03T00:00:00.000Z'') \<and>
   0 < totalProcessed (getWeeklyStats sample_db sample_parse ''2024-01-03T00:00:00.000Z'')"
proof -
  let ?now = "''2024-01-10T10:00:00.000Z''"
  let ?w = "''2024-01-08T10:00:00.000Z''"
  let ?v = "''2024-01-03T00:00:00.000Z''"
  have m: "bookmarks sample_db ! 2 \<in> set (bookmarks sample_db)"
    "bookmarks sample_db ! 3 \<in> set (bookmarks sample_db)"
    by (simp_all add: sample_db_def)
  have iw: "in_window ?v (bookmarks sample_db ! 2)" "in_window ?v (bookmarks sample_db ! 3)"
    by (simp_all add: in_window_def sample_db_def)
  have s: "status (bookmarks sample_db ! 2) = Some processing"
    "status (bookmarks sample_db ! 3) = Some failed"
    by (simp_all add: sample_db_def)
  from stats_ignore_status [of status sample_db sample_parse ?v "''T1''" ?v]
  have "\<forall>r\<in>set (bookmarks sample_db). in_window ?v r \<longrightarrow>
      r \<in> set (select_since sample_db ?v) \<and>
      0 < totalProcessed (getWeeklyStats sample_db sample_parse ?v)"
    by blast
  with m iw s have counted:
    "in_window ?v (bookmarks sample_db ! 2) \<and>
     status (bookmarks sample_db ! 2) = Some processing \<and>
     in_window ?v (bookmarks sample_db ! 3) \<and>
     status (bookmarks sample_db ! 3) = Some failed \<and>
     bookmarks sample_db ! 2 \<in> set (select_since sample_db ?v) \<and>
     bookmarks sample_db ! 3 \<in> set (select_since sample_db ?v) \<and>
     0 < totalProcessed (getWeeklyStats sample_db sample_parse ?v)"
    by blast
  have h: "fst (tryLock empty_db ''T1'' ?now) \<and> ?w \<le> ?now"
    by (simp add: tryLock_result select_status_empty_db)
  have e: "bookmarks empty_db = []"
    by (simp add: empty_db_def)
  from h stats_ignore_status [of status empty_db sample_parse ?w "''T1''" ?now]
  have "fst (tryLock empty_db ''T1'' ?now) \<and> ?w \<le> ?now \<and>
     totalProcessed (getWeeklyStats (snd (tryLock empty_db ''T1'' ?now)) sample_parse ?w) = 1 \<and>
     byCategory (getWeeklyStats (snd (tryLock empty_db ''T1'' ?now)) sample_parse ?w) ''review''
       = Some 1 \<and>
     stats_total (getStats (snd (tryLock empty_db ''T1'' ?now))) = 1 \<and>
     stats_byCategory (getStats (snd (tryLock empty_db ''T1'' ?now))) ''review'' = Some 1 \<and>
     totalProcessed (getWeeklyStats
       (releaseLock (snd (tryLock empty_db ''T1'' ?now)) ''T1'' failed) sample_parse ?w) = 1 \<and>
     stats_total (getStats (releaseLock (snd (tryLock empty_db ''T1'' ?now)) ''T1'' failed)) = 1"
    by (simp add: e)
  with counted show ?thesis
    by blast
qed

section \<open>Properties of the notifier\<close>























section \<open>Properties of the analysis and of the orchestrator\<close>






lemma claimable_tryLock:
  "claimable d tid \<Longrightarrow>
   \<not> isProcessed d tid \<and>
   tryLock d tid now = (True, insert_or_replace d tid now ''review'' None ''{}'' processing)"
  by (auto simp: claimable_def isProcessed_result tryLock_result)

lemma processItem_unfold:
  "processItem e st tw =
     (if isProcessed (db (grabber st)) (tw_id tw) \<or>
         \<not> fst (tryLock (db (grabber st)) (tw_id tw) (lock_time e))
      then (st\<lparr>skipped := skipped st + 1\<rparr>, None)
      else (case processTweet e (snd (tryLock (db (grabber st)) (tw_id tw) (lock_time e))) tw of
              Inr db2 \<Rightarrow>
                (st\<lparr>grabber := (grabber st)\<lparr>db := db2\<rparr>, processed := processed st + 1\<rparr>, None)
            | Inl err \<Rightarrow>
                (st\<lparr>grabber :=
                      fst (handleError e
                             ((grabber st)\<lparr>db :=
                                releaseLock
                                  (snd (tryLock (db (grabber st)) (tw_id tw) (lock_time e)))
                                  (tw_id tw) failed\<rparr>)
                             err (Some (tw_id tw)))\<rparr>,
                 snd (handleError e
                        ((grabber st)\<lparr>db :=
                           releaseLock
                             (snd (tryLock (db (grabber st)) (tw_id tw) (lock_time e)))
                             (tw_id tw) failed\<rparr>)
                        err (Some (tw_id tw))))))"
  by (auto simp: processItem_def Let_def split: prod.splits bool.splits sum.splits)




















lemma analyze_sample:
  "analyze sample_env (sample_tweet tid) sample_triage sample_context = Inr sample_result"
  by (simp add: analyze_def sample_env_def sample_context_def sample_result_def sample_object_def)

text \<open>
  C8: in every result of \<^verbatim>\<open>analyze\<close>, \<^verbatim>\<open>hasArticle\<close> is true when the enriched
  context holds an article, \<^verbatim>\<open>hasVideo\<close> when it holds a transcript and
  \<^verbatim>\<open>hasThread\<close> when it holds a thread tweet, whatever the provider answered; each
  flag is the disjunction of the provider's flag and that evidence.
\<close>

theorem analyze_merges_evidence:
  assumes "analyze e tw tr context = Inr r"
  shows "(articles context \<noteq> [] \<longrightarrow> hasArticle r) \<and>
         (transcripts context \<noteq> [] \<longrightarrow> hasVideo r) \<and>
         (ctx_threadTweets context \<noteq> [] \<longrightarrow> hasThread r) \<and>
         (\<exists>object. generate_analysis e tw tr context = Inr object \<and>
            hasArticle r = (hasArticle object \<or> articles context \<noteq> []) \<and>
            hasVideo r = (hasVideo object \<or> transcripts context \<noteq> []) \<and>
            hasThread r = (hasThread object \<or> ctx_threadTweets context \<noteq> []))"
  using assms
  by (auto simp: analyze_def AnalysisObject.extend_def split: sum.splits)

theorem analyze_merges_evidence_witness:
  "analyze sample_env (sample_tweet ''1'') sample_triage sample_context = Inr sample_result \<and>
   articles sample_context \<noteq> [] \<and>
   generate_analysis sample_env (sample_tweet ''1'') sample_triage sample_context
     = Inr sample_object \<and>
   \<not> hasArticle sample_object \<and>
   hasArticle sample_result \<and> \<not> hasVideo sample_result \<and> \<not> hasThread sample_result"
proof -
  have c: "articles sample_context \<noteq> []" "transcripts sample_context = []"
    "ctx_threadTweets sample_context = []"
    by (simp_all add: sample_context_def)
  have g: "generate_analysis sample_env (sample_tweet ''1'') sample_triage sample_context
     = Inr sample_object"
    by (simp add: sample_env_def)
  have o: "\<not> hasArticle sample_object" "\<not> hasVideo sample_object" "\<not> hasThread sample_object"
    by (simp_all add: sample_object_def)
  from analyze_merges_evidence [OF analyze_sample [of "''1''"]] c g o
  show ?thesis
    by (simp add: analyze_sample)
qed

lemma get_row_markProcessed:
  "get_row (markProcessed d record) (tweetId record) =
     Some \<lparr>row_id = Suc (autoincrement d), tweet_id = tweetId record,
           processed_at = processedAt record, category = rec_category record,
           notion_page_id = notionPageId record, raw_data = rawData record,
           status = Some (case rec_status record of Some s \<Rightarrow> s | None \<Rightarrow> completed)\<rparr>"
  by (simp add: markProcessed_def get_row_insert_or_replace)

lemma processTweet_notion_failure:
  assumes "agent_processTweet e tw (\<lambda>tr. Inr (fetchEnrichment e tw tr)) = Inr (tr, Some analysis)"
    and "(\<exists>err. pageExists e (tw_id tw) = Inl err) \<or>
         pageExists e (tw_id tw) = Inr False \<and> (\<exists>err. createPage e tw analysis = Inl err)"
  shows "processTweet e d tw =
     Inr (markProcessed d
            \<lparr>tweetId = tw_id tw, processedAt = commit_time e,
             rec_category = analysis_category analysis, notionPageId = None,
             rawData = stringify e
               \<lparr>pl_tweet = tw, pl_triage = tr, pl_analysis = Some analysis,
                pl_skipped = False, pl_alreadyInNotion = False\<rparr>,
             rec_status = Some completed\<rparr>)"
  using assms by (auto simp: processTweet_def Let_def)

text \<open>
  C4: when an analysis was produced and the check \<^verbatim>\<open>pageExists\<close> throws, or it
  returns false and \<^verbatim>\<open>createPage\<close> throws, \<^verbatim>\<open>processTweet\<close> does not throw: it
  commits the record of the item with the status \<^verbatim>\<open>'completed'\<close> and no
  destination page. In the loop, a claimable item then counts as processed, nothing
  is reported through \<^verbatim>\<open>handleError\<close>, and its record is completed, not failed.
\<close>

theorem notion_failure_still_completed:
  assumes "agent_processTweet e tw (\<lambda>tr. Inr (fetchEnrichment e tw tr)) = Inr (tr, Some analysis)"
    and "(\<exists>err. pageExists e (tw_id tw) = Inl err) \<or>
         pageExists e (tw_id tw) = Inr False \<and> (\<exists>err. createPage e tw analysis = Inl err)"
  shows "(\<exists>d'. processTweet e d tw = Inr d' \<and>
            get_row d' (tw_id tw) =
              Some \<lparr>row_id = Suc (autoincrement d), tweet_id = tw_id tw,
                    processed_at = commit_time e, category = analysis_category analysis,
                    notion_page_id = None,
                    raw_data = stringify e
                      \<lparr>pl_tweet = tw, pl_triage = tr, pl_analysis = Some analysis,
                       pl_skipped = False, pl_alreadyInNotion = False\<rparr>,
                    status = Some completed\<rparr>) \<and>
         (claimable (db (grabber st)) (tw_id tw) \<longrightarrow>
            snd (processItem e st tw) = None \<and>
            processed (fst (processItem e st tw)) = processed st + 1 \<and>
            events (grabber (fst (processItem e st tw))) = events (grabber st) \<and>
            (\<exists>r. get_row (db (grabber (fst (processItem e st tw)))) (tw_id tw) = Some r \<and>
                 status r = Some completed \<and> notion_page_id r = None))"
proof (intro conjI impI)
  note p = processTweet_notion_failure [OF assms]
  show "\<exists>d'. processTweet e d tw = Inr d' \<and>
            get_row d' (tw_id tw) =
              Some \<lparr>row_id = Suc (autoincrement d), tweet_id = tw_id tw,
                    processed_at = commit_time e, category = analysis_category analysis,
                    notion_page_id = None,
                    raw_data = stringify e
                      \<lparr>pl_tweet = tw, pl_triage = tr, pl_analysis = Some analysis,
                       pl_skipped = False, pl_alreadyInNotion = False\<rparr>,
                    status = Some completed\<rparr>"
    unfolding p [of d] by (simp add: markProcessed_def get_row_insert_or_replace)
  assume c: "claimable (db (grabber st)) (tw_id tw)"
  let ?d1 = "insert_or_replace (db (grabber st)) (tw_id tw) (lock_time e) ''review'' None ''{}''
         processing"
  from claimable_tryLock [OF c, of "lock_time e"]
  have np: "\<not> isProcessed (db (grabber st)) (tw_id tw)"
    and t: "tryLock (db (grabber st)) (tw_id tw) (lock_time e) = (True, ?d1)"
    by simp_all
  have u: "processItem e st tw =
     (st\<lparr>grabber := (grabber st)\<lparr>db := markProcessed ?d1
            \<lparr>tweetId = tw_id tw, processedAt = commit_time e,
             rec_category = analysis_category analysis, notionPageId = None,
             rawData = stringify e
               \<lparr>pl_tweet = tw, pl_triage = tr, pl_analysis = Some analysis,
                pl_skipped = False, pl_alreadyInNotion = False\<rparr>,
             rec_status = Some completed\<rparr>\<rparr>,
          processed := processed st + 1\<rparr>, None)"
    using np t by (simp add: processItem_unfold p [of ?d1])
  show "snd (processItem e st tw) = None"
    "processed (fst (processItem e st tw)) = processed st + 1"
    "events (grabber (fst (processItem e st tw))) = events (grabber st)"
    by (simp_all add: u)
  show "\<exists>r. get_row (db (grabber (fst (processItem e st tw)))) (tw_id tw) = Some r \<and>
                 status r = Some completed \<and> notion_page_id r = None"
    by (simp add: u markProcessed_def get_row_insert_or_replace)
qed

lemma agent_notion_down:
  "agent_processTweet notion_down_env (sample_tweet tid)
     (\<lambda>tr. Inr (fetchEnrichment notion_down_env (sample_tweet tid) tr))
   = Inr (sample_triage, Some sample_result)"
proof -
  have f: "fetchEnrichment notion_down_env (sample_tweet tid) sample_triage = sample_context"
    by (simp add: fetchEnrichment_def notion_down_env_def sample_env_def sample_triage_def
        sample_tweet_def sample_context_def Let_def)
  have a: "analyze notion_down_env (sample_tweet tid) sample_triage sample_context
      = Inr sample_result"
    by (simp add: analyze_def notion_down_env_def sample_env_def sample_context_def
        sample_result_def sample_object_def)
  have t: "triage notion_down_env (sample_tweet tid) = Inr sample_triage"
    by (simp add: triage_def notion_down_env_def sample_env_def)
  have v: "estimatedValue sample_triage \<noteq> skip"
    by (simp add: sample_triage_def)
  show ?thesis
    by (simp add: agent_processTweet_def t v f a)
qed

theorem notion_failure_still_completed_witness:
  "agent_processTweet notion_down_env (sample_tweet ''1'')
     (\<lambda>tr. Inr (fetchEnrichment notion_down_env (sample_tweet ''1'') tr))
     = Inr (sample_triage, Some sample_result) \<and>
   pageExists notion_down_env (tw_id (sample_tweet ''1'')) = Inr False \<and>
   createPage notion_down_env (sample_tweet ''1'') sample_result
     = Inl (GrabberError ''Failed to create Notion page: timeout'' NOTION True) \<and>
   claimable (db (grabber start_state)) (tw_id (sample_tweet ''1'')) \<and>
   snd (processItem notion_down_env start_state (sample_tweet ''1'')) = None \<and>
   select_status (db (grabber (fst (processItem notion_down_env start_state (sample_tweet ''1''))))) ''1''
     = Some (Some completed) \<and>
   map_option notion_page_id
     (get_row (db (grabber (fst (processItem notion_down_env start_state (sample_tweet ''1''))))) ''1'')
     = Some None"
proof -
  have p: "pageExists notion_down_env (tw_id (sample_tweet ''1'')) = Inr False"
    by (simp add: notion_down_env_def sample_env_def)
  have c: "createPage notion_down_env (sample_tweet ''1'') sample_result
     = Inl (GrabberError ''Failed to create Notion page: timeout'' NOTION True)"
    by (simp add: notion_down_env_def sample_env_def)
  have h: "(\<exists>err. pageExists notion_down_env (tw_id (sample_tweet ''1'')) = Inl err) \<or>
      pageExists notion_down_env (tw_id (sample_tweet ''1'')) = Inr False \<and>
      (\<exists>err. createPage notion_down_env (sample_tweet ''1'') sample_result = Inl err)"
    using p c by simp
  have cl: "claimable (db (grabber start_state)) (tw_id (sample_tweet ''1''))"
    by (simp add: claimable_def start_state_def select_status_empty_db)
  have i: "tw_id (sample_tweet ''1'') = ''1''"
    by (simp add: sample_tweet_def)
  from notion_failure_still_completed [OF agent_notion_down h, of empty_db start_state] cl
  have "snd (processItem notion_down_env start_state (sample_tweet ''1'')) = None"
    and "\<exists>r. get_row (db (grabber (fst (processItem notion_down_env start_state
                 (sample_tweet ''1''))))) (tw_id (sample_tweet ''1'')) = Some r \<and>
           status r = Some completed \<and> notion_page_id r = None"
    by blast+
  with agent_notion_down [of "''1''"] p c cl show ?thesis
    by (auto simp: i select_status_def)
qed






end
